theory Spec2Isabelle
  imports Complex_Main "HOL-Library.Word"
begin

section \<open>Python and tensor-library values\<close>

text \<open>
  The environment adapters of \<^verbatim>\<open>nnet/envs\<close> and the collate utility of
  \<^verbatim>\<open>nnet/utils/collate_fn.py\<close> are embedded as functions over explicit state.
  Every exception the Python can raise on the modelled data is a value of \<open>error\<close>;
  a function that may raise returns \<open>error + 'a\<close> with \<open>Inl\<close> for the exception.
\<close>

datatype error =
    AssertionError
  | AttributeError
  | UnboundLocalError
  | KeyError
  | IndexError
  | ItemError
  | ShapeError
  | SimulatorFailure

text \<open>
  \<open>ItemError\<close> is what \<^verbatim>\<open>Tensor.item()\<close> raises on a tensor that does not hold
  exactly one element; \<open>ShapeError\<close> is the runtime error of a tensor operation whose
  operands have the wrong number of dimensions or sizes that do not match;
  \<open>SimulatorFailure\<close> is any exception of the wrapped simulator, which the adapters
  neither catch nor retry.

  A tensor is its shape and its elements in row-major order (every tensor here is
  contiguous). The library only builds tensors whose element count is the product of
  the shape; \<open>wf_tensor\<close> says so.
\<close>

record 'a tensor =
  shape :: "nat list"
  data :: "'a list"

type_synonym frame = "8 word tensor"

definition wf_tensor :: "'a tensor \<Rightarrow> bool" where
  "wf_tensor t = (length (data t) = prod_list (shape t))"

definition numel :: "'a tensor \<Rightarrow> nat" where
  "numel t = length (data t)"

text \<open>\<^verbatim>\<open>t.item()\<close>: the element of a one-element tensor, of any shape.\<close>

definition item :: "'a tensor \<Rightarrow> error + 'a" where
  "item t = (case data t of [x] \<Rightarrow> Inr x | _ \<Rightarrow> Inl ItemError)"

text \<open>\<^verbatim>\<open>t.clip(lo, hi)\<close>: elementwise \<open>min (max x lo) hi\<close>.\<close>

definition clip :: "'r::ord \<Rightarrow> 'r \<Rightarrow> 'r tensor \<Rightarrow> 'r tensor" where
  "clip lo hi t = t\<lparr>data := map (\<lambda>x. min (max x lo) hi) (data t)\<rparr>"

definition tolist :: "'a tensor \<Rightarrow> 'a list" where
  "tolist t = data t"

text \<open>\<^verbatim>\<open>t.unsqueeze(dim=0)\<close>: a new leading axis of size one.\<close>

definition unsqueeze0 :: "'a tensor \<Rightarrow> 'a tensor" where
  "unsqueeze0 t = t\<lparr>shape := 1 # shape t\<rparr>"

text \<open>
  \<^verbatim>\<open>t.permute(2, 0, 1)\<close> takes a height-width-channel image to channel-height-width,
  and \<^verbatim>\<open>t.permute(1, 2, 0)\<close> takes it back. Both need a tensor of three dimensions.
\<close>

definition permute_201 :: "'a tensor \<Rightarrow> error + 'a tensor" where
  "permute_201 t =
     (case shape t of
        [h, w, c] \<Rightarrow>
          Inr \<lparr>shape = [c, h, w],
               data = concat (map (\<lambda>k. concat (map (\<lambda>i. map (\<lambda>j. data t ! ((i * w + j) * c + k))
                        [0..<w]) [0..<h])) [0..<c])\<rparr>
      | _ \<Rightarrow> Inl ShapeError)"

definition permute_120 :: "'a tensor \<Rightarrow> error + 'a tensor" where
  "permute_120 t =
     (case shape t of
        [c, h, w] \<Rightarrow>
          Inr \<lparr>shape = [h, w, c],
               data = concat (map (\<lambda>i. concat (map (\<lambda>j. map (\<lambda>k. data t ! ((k * h + i) * w + j))
                        [0..<c]) [0..<w])) [0..<h])\<rparr>
      | _ \<Rightarrow> Inl ShapeError)"

text \<open>
  \<^verbatim>\<open>t.repeat(n, 1, 1)\<close>: the tensor is read with leading axes of size one up to three
  dimensions, and tiled \<open>n\<close> times along the first. More than three dimensions are
  an error.
\<close>

definition repeat_n11 :: "nat \<Rightarrow> 'a tensor \<Rightarrow> error + 'a tensor" where
  "repeat_n11 n t =
     (if length (shape t) > 3 then Inl ShapeError
      else (case replicate (3 - length (shape t)) 1 @ shape t of
              c # rest \<Rightarrow> Inr \<lparr>shape = n * c # rest, data = concat (replicate n (data t))\<rparr>
            | [] \<Rightarrow> Inl ShapeError))"

text \<open>\<^verbatim>\<open>t[k:]\<close>: the slice from index \<open>k\<close> along the first axis.\<close>

definition slice_from :: "nat \<Rightarrow> 'a tensor \<Rightarrow> error + 'a tensor" where
  "slice_from k t =
     (case shape t of
        [] \<Rightarrow> Inl IndexError
      | c # rest \<Rightarrow> Inr \<lparr>shape = (c - k) # rest, data = drop (k * prod_list rest) (data t)\<rparr>)"

text \<open>
  \<^verbatim>\<open>torch.cat([a, b], dim=0)\<close>: both operands have at least one dimension and agree
  on every axis but the first. (The library also lets a one-dimensional empty tensor
  through; no tensor of the adapters has one dimension where they concatenate.)
\<close>

definition cat0 :: "'a tensor \<Rightarrow> 'a tensor \<Rightarrow> error + 'a tensor" where
  "cat0 a b =
     (case (shape a, shape b) of
        (ca # ra, cb # rb) \<Rightarrow>
          if ra = rb then Inr \<lparr>shape = (ca + cb) # ra, data = data a @ data b\<rparr>
          else Inl ShapeError
      | _ \<Rightarrow> Inl ShapeError)"

text \<open>\<^verbatim>\<open>torch.stack(ts, dim=0)\<close>: a non-empty list of tensors of one shape.\<close>

definition stack :: "'a tensor list \<Rightarrow> error + 'a tensor" where
  "stack ts =
     (case ts of
        [] \<Rightarrow> Inl ShapeError
      | t # _ \<Rightarrow>
          if list_all (\<lambda>u. shape u = shape t) ts
          then Inr \<lparr>shape = length ts # shape t, data = concat (map data ts)\<rparr>
          else Inl ShapeError)"

text \<open>
  \<^verbatim>\<open>t.unsqueeze(dim=-1).repeat(1, 1, 1, 3)\<close>: a grayscale video becomes a
  three-channel one, every sample written three times.
\<close>

definition gray_to_rgb :: "'a tensor \<Rightarrow> error + 'a tensor" where
  "gray_to_rgb t =
     (if length (shape t) > 3 then Inl ShapeError
      else Inr \<lparr>shape = replicate (3 - length (shape t)) 1 @ shape t @ [3],
                data = concat (map (replicate 3) (data t))\<rparr>)"

subsection \<open>The interpreter's part\<close>

text \<open>
  Rewards are Python floats. The model leaves their arithmetic open: \<open>'r\<close> is any type
  with a zero and an addition, the conversion \<^verbatim>\<open>torch.tensor(x, dtype=torch.float32)\<close>
  and \<^verbatim>\<open>str(x)\<close> are parameters, and so is the reading of the clock,
  \<^verbatim>\<open>str(datetime.datetime.now())\<close>.
\<close>

record 'r python =
  float32 :: "'r \<Rightarrow> 'r"
  str_float :: "'r \<Rightarrow> string"
  now :: string

text \<open>\<^verbatim>\<open>s.replace(" ", "_")\<close>\<close>

definition replace_spaces :: "string \<Rightarrow> string" where
  "replace_spaces s = map (\<lambda>c. if c = CHR '' '' then CHR ''_'' else c) s"

text \<open>\<^verbatim>\<open>os.path.join(a, b)\<close> on a POSIX system.\<close>

definition path_join :: "string \<Rightarrow> string \<Rightarrow> string" where
  "path_join a b =
     (if b \<noteq> [] \<and> hd b = CHR ''/'' then b
      else if a = [] \<or> last a = CHR ''/'' then a @ b
      else a @ ''/'' @ b)"

text \<open>
  A recording buffer is a Python list of frames until the episode is flushed; the
  flush rebinds the attribute to the stacked tensor. \<^verbatim>\<open>append\<close> exists on the list only.
\<close>

datatype buf = PyList "frame list" | Stacked frame

definition append_frame :: "buf option \<Rightarrow> frame \<Rightarrow> error + buf option" where
  "append_frame b x =
     (case b of
        Some (PyList fs) \<Rightarrow> Inr (Some (PyList (fs @ [x])))
      | _ \<Rightarrow> Inl AttributeError)"

text \<open>
  \<^verbatim>\<open>torch.stack(self.episode_video, dim=0)\<close>. Stacking a tensor stacks its slices
  along the first axis, which gives the tensor back; the flush never meets that case,
  since the \<^verbatim>\<open>append\<close> before it has failed by then.
\<close>

definition stack_buf :: "buf option \<Rightarrow> error + frame" where
  "stack_buf b =
     (case b of
        None \<Rightarrow> Inl AttributeError
      | Some (PyList fs) \<Rightarrow> stack fs
      | Some (Stacked t) \<Rightarrow> Inr t)"

text \<open>One call of \<^verbatim>\<open>torchvision.io.write_video\<close>.\<close>

record 'r video_file =
  filename :: string
  video_array :: frame
  video_fps :: 'r

text \<open>The unit every \<^verbatim>\<open>reset\<close> and \<^verbatim>\<open>step\<close> returns. The flags are float tensors
  built from a boolean, \<open>0.0\<close> or \<open>1.0\<close>; the model keeps the boolean.\<close>

record 'r transition =
  state :: frame
  reward :: 'r
  done_flag :: bool
  is_first :: bool
  is_last :: bool

text \<open>
  The attributes the two adapter classes have in common. An attribute that
  \<^verbatim>\<open>__init__\<close> does not set is \<open>None\<close> until \<^verbatim>\<open>reset\<close> sets it; reading it before
  is an \<open>AttributeError\<close>. \<open>env\<close> is the state of the wrapped simulator.
\<close>

record ('s, 'r) env_attrs =
  img_size :: "nat \<times> nat"
  history_frames :: nat
  action_repeat :: nat
  episode_saving_path :: "string option"
  num_actions :: nat
  fps :: 'r
  env :: 's
  history :: "frame option"
  episode_score :: "'r option"
  episode_video :: "buf option"
  episode_video_pre :: "buf option"

text \<open>
  The flush of a finished episode, the same lines in both classes: stack the two
  buffers, name the files by the clock and the score, write the two videos. It returns
  the stacked tensors (the attributes are rebound to them) and the two files.
\<close>

definition date_time_score :: "'r python \<Rightarrow> 'r \<Rightarrow> string" where
  "date_time_score py score = replace_spaces (now py) @ ''_'' @ str_float py score"

section \<open>The continuous-control adapter\<close>

text \<open>
  \<^verbatim>\<open>nnet/envs/dm_control/deep_mind_control_env.py\<close>. The simulator is the
  \<^verbatim>\<open>pixels.Wrapper\<close> around \<^verbatim>\<open>suite.load(domain, task)\<close>: it is a parameter, three
  functions on its state. A time step carries the rendered pixels (height, width,
  channel), the reward and whether it is the last of its episode.
\<close>

record 'r timestep =
  ts_pixels :: frame
  ts_reward :: 'r
  ts_last :: bool

record ('s, 'r) dm_sim =
  sim_reset :: "'s \<Rightarrow> ('r timestep \<times> 's) option"
  sim_step :: "'s \<Rightarrow> 'r list \<Rightarrow> ('r timestep \<times> 's) option"
  sim_render :: "'s \<Rightarrow> nat \<Rightarrow> frame"

record ('s, 'r) dmc_env = "('s, 'r) env_attrs" +
  camera_id :: nat
  clip_low :: 'r
  clip_high :: 'r
  num_channels :: "nat option"

text \<open>
  \<^verbatim>\<open>__init__\<close>, with the simulator it loads as an argument; the three task classes
  (\<^verbatim>\<open>acrobot.py\<close>, \<^verbatim>\<open>pendulum.py\<close>, \<^verbatim>\<open>quadruped.py\<close>) call it and set
  \<^verbatim>\<open>num_actions\<close>.
\<close>

definition DeepMindControlEnv_init ::
  "'s \<Rightarrow> nat \<times> nat \<Rightarrow> nat \<Rightarrow> string option \<Rightarrow> nat \<Rightarrow> nat \<Rightarrow> nat
     \<Rightarrow> ('s, 'r::{numeral,uminus}) dmc_env" where
  "DeepMindControlEnv_init sim0 sz hf path cam ar na =
     \<lparr>img_size = sz, history_frames = hf, action_repeat = ar,
      episode_saving_path = path, num_actions = na, fps = 50, env = sim0,
      history = None, episode_score = None, episode_video = None,
      episode_video_pre = None,
      camera_id = cam, clip_low = - 1, clip_high = 1, num_channels = None\<rparr>"

definition Acrobot :: "'s \<Rightarrow> nat \<times> nat \<Rightarrow> nat \<Rightarrow> string option \<Rightarrow> nat
     \<Rightarrow> ('s, 'r::{numeral,uminus}) dmc_env" where
  "Acrobot sim0 sz hf path ar = DeepMindControlEnv_init sim0 sz hf path 0 ar 1"

definition Pendulum :: "'s \<Rightarrow> nat \<times> nat \<Rightarrow> nat \<Rightarrow> string option \<Rightarrow> nat
     \<Rightarrow> ('s, 'r::{numeral,uminus}) dmc_env" where
  "Pendulum sim0 sz hf path ar = DeepMindControlEnv_init sim0 sz hf path 0 ar 1"

definition Quadruped :: "'s \<Rightarrow> nat \<times> nat \<Rightarrow> nat \<Rightarrow> string option \<Rightarrow> nat
     \<Rightarrow> ('s, 'r::{numeral,uminus}) dmc_env" where
  "Quadruped sim0 sz hf path ar = DeepMindControlEnv_init sim0 sz hf path 2 ar 12"

datatype dtype = UInt8

definition DeepMindControlEnv_obs_space ::
  "('s, 'r) dmc_env \<Rightarrow> (string \<times> nat list \<times> dtype) list" where
  "DeepMindControlEnv_obs_space self =
     [(''image'', [3, fst (img_size self), snd (img_size self)], UInt8)]"

definition process_infos :: "'r timestep \<Rightarrow> error + (frame \<times> 'r \<times> bool)" where
  "process_infos infos =
     (case permute_201 (ts_pixels infos) of
        Inl e \<Rightarrow> Inl e
      | Inr obs_pixels \<Rightarrow> Inr (obs_pixels, ts_reward infos, ts_last infos))"

definition get_obs :: "('s, 'r) dm_sim \<Rightarrow> ('s, 'r) dmc_env \<Rightarrow> frame" where
  "get_obs sim self = sim_render sim (env self) (camera_id self)"

definition DeepMindControlEnv_reset ::
  "('s, 'r::zero) dm_sim \<Rightarrow> ('s, 'r) dmc_env \<Rightarrow> error + ('r transition \<times> ('s, 'r) dmc_env)" where
  "DeepMindControlEnv_reset sim self =
     (case sim_reset sim (env self) of
        None \<Rightarrow> Inl SimulatorFailure
      | Some (infos, s') \<Rightarrow>
         (case process_infos infos of
            Inl e \<Rightarrow> Inl e
          | Inr (obs_pixels, _, _) \<Rightarrow>
             (let self1 = self\<lparr>env := s', episode_score := Some 0\<rparr>;
                  self2 = (if episode_saving_path self1 \<noteq> None
                           then self1\<lparr>episode_video := Some (PyList []),
                                       episode_video_pre := Some (PyList [])\<rparr>
                           else self1)
              in case shape obs_pixels of
                   [] \<Rightarrow> Inl IndexError
                 | c # _ \<Rightarrow>
                    (case repeat_n11 (history_frames self2) obs_pixels of
                       Inl e \<Rightarrow> Inl e
                     | Inr h \<Rightarrow>
                        Inr (\<lparr>state = h, reward = 0, done_flag = False,
                              is_first = True, is_last = False\<rparr>,
                             self2\<lparr>num_channels := Some c, history := Some h\<rparr>)))))"

text \<open>
  The body of the repeat loop of \<^verbatim>\<open>step\<close>, and the loop: \<open>n\<close> iterations left, the
  loop's variables \<open>obs_pixels\<close> (unbound before the first iteration), \<open>reward\<close> (\<open>rew\<close>) and
  \<open>done\<close> as accumulators.
\<close>

definition add_to_video ::
  "('s, 'r) dm_sim \<Rightarrow> ('s, 'r) dmc_env \<Rightarrow> frame \<Rightarrow> error + ('s, 'r) dmc_env" where
  "add_to_video sim self obs_pixels =
     (if episode_saving_path self \<noteq> None then
        (case append_frame (episode_video self) (get_obs sim self) of
           Inl e \<Rightarrow> Inl e
         | Inr v \<Rightarrow>
            (case permute_120 obs_pixels of
               Inl e \<Rightarrow> Inl e
             | Inr p \<Rightarrow>
                (case append_frame (episode_video_pre self) p of
                   Inl e \<Rightarrow> Inl e
                 | Inr vp \<Rightarrow> Inr (self\<lparr>episode_video := v, episode_video_pre := vp\<rparr>))))
      else Inr self)"

fun repeat_loop ::
  "('s, 'r::plus) dm_sim \<Rightarrow> 'r list \<Rightarrow> nat \<Rightarrow> ('s, 'r) dmc_env \<times> frame option \<times> 'r \<times> bool
     \<Rightarrow> error + (('s, 'r) dmc_env \<times> frame option \<times> 'r \<times> bool)" where
  "repeat_loop sim a 0 acc = Inr acc"
| "repeat_loop sim a (Suc n) (self, obs, rew, done) =
     (case sim_step sim (env self) a of
        None \<Rightarrow> Inl SimulatorFailure
      | Some (infos, s') \<Rightarrow>
         (case process_infos infos of
            Inl e \<Rightarrow> Inl e
          | Inr (obs_pixels, step_reward, step_done) \<Rightarrow>
             (case add_to_video sim (self\<lparr>env := s'\<rparr>) obs_pixels of
                Inl e \<Rightarrow> Inl e
              | Inr self' \<Rightarrow>
                 repeat_loop sim a n
                   (self', Some obs_pixels, rew + step_reward, done \<or> step_done))))"

text \<open>The flush: \<^verbatim>\<open>if done and self.episode_saving_path is not None\<close>.\<close>

definition save_episode ::
  "'r python \<Rightarrow> ('s, 'r) dmc_env \<Rightarrow> bool \<Rightarrow> error + (('s, 'r) dmc_env \<times> 'r video_file list)" where
  "save_episode py self done =
     (case episode_saving_path self of
        Some path \<Rightarrow>
          if done then
            (case stack_buf (episode_video self) of
               Inl e \<Rightarrow> Inl e
             | Inr v \<Rightarrow>
                (case stack_buf (episode_video_pre self) of
                   Inl e \<Rightarrow> Inl e
                 | Inr vp \<Rightarrow>
                    (case episode_score self of
                       None \<Rightarrow> Inl AttributeError
                     | Some score \<Rightarrow>
                        Inr (self\<lparr>episode_video := Some (Stacked v),
                                  episode_video_pre := Some (Stacked vp)\<rparr>,
                             [\<lparr>filename = path_join path (date_time_score py score @ ''.mp4''),
                               video_array = v, video_fps = fps self\<rparr>,
                              \<lparr>filename = path_join path (date_time_score py score @ ''_pre.mp4''),
                               video_array = vp, video_fps = fps self\<rparr>]))))
          else Inr (self, [])
      | None \<Rightarrow> Inr (self, []))"

definition DeepMindControlEnv_step ::
  "'r python \<Rightarrow> ('s, 'r::{zero,plus,ord}) dm_sim \<Rightarrow> ('s, 'r) dmc_env \<Rightarrow> 'r tensor
     \<Rightarrow> error + ('r transition \<times> ('s, 'r) dmc_env \<times> 'r video_file list)" where
  "DeepMindControlEnv_step py sim self action =
     (if shape action \<noteq> [num_actions self] then Inl AssertionError
      else
        (case repeat_loop sim (tolist (clip (clip_low self) (clip_high self) action))
                (action_repeat self) (self, None, 0, False) of
           Inl e \<Rightarrow> Inl e
         | Inr (self1, obs, rew, done) \<Rightarrow>
            (case episode_score self1 of
               None \<Rightarrow> Inl AttributeError
             | Some score \<Rightarrow>
                (case save_episode py (self1\<lparr>episode_score := Some (score + rew)\<rparr>) done of
                   Inl e \<Rightarrow> Inl e
                 | Inr (self2, files) \<Rightarrow>
                    (case history self2 of
                       None \<Rightarrow> Inl AttributeError
                     | Some h \<Rightarrow>
                        (case slice_from 3 h of
                           Inl e \<Rightarrow> Inl e
                         | Inr h3 \<Rightarrow>
                            (case obs of
                               None \<Rightarrow> Inl UnboundLocalError
                             | Some obs_pixels \<Rightarrow>
                                (case cat0 h3 obs_pixels of
                                   Inl e \<Rightarrow> Inl e
                                 | Inr h' \<Rightarrow>
                                    (let reward_t = float32 py rew;
                                         done_t = False;
                                         is_last_t = done_t;
                                         is_first_t = False
                                     in Inr (\<lparr>state = h', reward = reward_t, done_flag = done_t,
                                              is_first = is_first_t, is_last = is_last_t\<rparr>,
                                             self2\<lparr>history := Some h'\<rparr>, files))))))))))"

text \<open>
  What the simulator reports when it is stepped \<open>n\<close> times with one action: the
  time steps in order, or \<open>None\<close> when a step of it fails. This is the vocabulary of
  the properties of the repeat loop, not a function of the source.
\<close>

fun sim_trace :: "('s, 'r) dm_sim \<Rightarrow> 's \<Rightarrow> 'r list \<Rightarrow> nat \<Rightarrow> 'r timestep list option" where
  "sim_trace sim s a 0 = Some []"
| "sim_trace sim s a (Suc n) =
     (case sim_step sim s a of
        None \<Rightarrow> None
      | Some (infos, s') \<Rightarrow>
         (case sim_trace sim s' a n of
            None \<Rightarrow> None
          | Some tss \<Rightarrow> Some (infos # tss)))"

section \<open>The Atari adapter\<close>

text \<open>
  \<^verbatim>\<open>nnet/envs/atari/atari_env.py\<close>. The simulator is \<^verbatim>\<open>gym.wrappers.AtariPreprocessing\<close>
  around the emulator: a parameter again. \<open>gym_step\<close> returns the preprocessed screen,
  the reward and the wrapper's \<^verbatim>\<open>done\<close>; \<open>get_image\<close> is \<^verbatim>\<open>env.env._get_image()\<close>, the
  raw screen; \<open>game_over\<close> is \<^verbatim>\<open>env.env.ale.game_over()\<close>. \<open>'a\<close> is the type of what
  \<^verbatim>\<open>action.item()\<close> gives.
\<close>

record ('s, 'a, 'r) gym_sim =
  gym_reset :: "'s \<Rightarrow> (frame \<times> 's) option"
  gym_step :: "'s \<Rightarrow> 'a \<Rightarrow> ((frame \<times> 'r \<times> bool) \<times> 's) option"
  get_image :: "'s \<Rightarrow> frame"
  game_over :: "'s \<Rightarrow> bool"

record ('s, 'r) atari_env = "('s, 'r) env_attrs" +
  grayscale_obs :: bool
  terminal_on_life_loss :: bool

definition AtariEnv_obs_space ::
  "('s, 'r) atari_env \<Rightarrow> (string \<times> nat list \<times> dtype) list" where
  "AtariEnv_obs_space self =
     (if grayscale_obs self
      then [(''image'', [1 * history_frames self, fst (img_size self), snd (img_size self)], UInt8)]
      else [(''image'', [3 * history_frames self, fst (img_size self), snd (img_size self)], UInt8)])"

text \<open>
  \<^verbatim>\<open>torch.nn.functional.one_hot(k, num_classes=n)\<close> for a scalar class \<open>k\<close>, and
  \<^verbatim>\<open>sample\<close>, with the number \<^verbatim>\<open>torch.randint\<close> draws as the argument \<open>k\<close>.
\<close>

definition one_hot :: "nat \<Rightarrow> nat \<Rightarrow> error + ('r::{zero,one}) tensor" where
  "one_hot k n =
     (if k < n then Inr \<lparr>shape = [n], data = map (\<lambda>i. if i = k then 1 else 0) [0..<n]\<rparr>
      else Inl ShapeError)"

definition AtariEnv_sample :: "('s, 'r) atari_env \<Rightarrow> nat \<Rightarrow> error + ('r::{zero,one}) tensor" where
  "AtariEnv_sample self k = one_hot k (num_actions self)"

definition AtariEnv_preprocess ::
  "'r python \<Rightarrow> ('s, 'a, 'r) gym_sim \<Rightarrow> ('s, 'r) atari_env \<Rightarrow> frame \<Rightarrow> 'r \<Rightarrow> bool
     \<Rightarrow> error + (frame \<times> 'r \<times> bool \<times> bool)" where
  "AtariEnv_preprocess py sim self st rew dn =
     (case (if grayscale_obs self then Inr (unsqueeze0 st) else permute_201 st) of
        Inl e \<Rightarrow> Inl e
      | Inr state1 \<Rightarrow>
         (let reward_t = float32 py rew;
              done_t = dn;
              is_last_t = (if terminal_on_life_loss self then game_over sim (env self)
                           else done_t)
          in Inr (state1, reward_t, done_t, is_last_t)))"

definition AtariEnv_reset ::
  "'r python \<Rightarrow> ('s, 'a, 'r::zero) gym_sim \<Rightarrow> ('s, 'r) atari_env
     \<Rightarrow> error + ('r transition \<times> ('s, 'r) atari_env)" where
  "AtariEnv_reset py sim self =
     (case gym_reset sim (env self) of
        None \<Rightarrow> Inl SimulatorFailure
      | Some (obs, s') \<Rightarrow>
         (case AtariEnv_preprocess py sim (self\<lparr>env := s'\<rparr>) obs 0 False of
            Inl e \<Rightarrow> Inl e
          | Inr (state1, _, _, _) \<Rightarrow>
             (let self0 = self\<lparr>env := s'\<rparr>;
                  self1 = (if episode_saving_path self0 \<noteq> None
                           then self0\<lparr>episode_video := Some (PyList []),
                                       episode_video_pre := Some (PyList [])\<rparr>
                           else self0)
              in case (if history_frames self1 > 1
                       then repeat_n11 (history_frames self1) state1
                       else Inr state1) of
                   Inl e \<Rightarrow> Inl e
                 | Inr h \<Rightarrow>
                    Inr (\<lparr>state = h, reward = 0, done_flag = False,
                          is_first = True, is_last = False\<rparr>,
                         self1\<lparr>history := Some h, episode_score := Some 0\<rparr>))))"

definition atari_add_to_video ::
  "('s, 'a, 'r) gym_sim \<Rightarrow> ('s, 'r) atari_env \<Rightarrow> frame \<Rightarrow> error + ('s, 'r) atari_env" where
  "atari_add_to_video sim self st =
     (if episode_saving_path self \<noteq> None then
        (case append_frame (episode_video self) (get_image sim (env self)) of
           Inl e \<Rightarrow> Inl e
         | Inr v \<Rightarrow>
            (case append_frame (episode_video_pre self) st of
               Inl e \<Rightarrow> Inl e
             | Inr vp \<Rightarrow> Inr (self\<lparr>episode_video := v, episode_video_pre := vp\<rparr>)))
      else Inr self)"

definition atari_save_episode ::
  "'r python \<Rightarrow> ('s, 'r) atari_env \<Rightarrow> bool
     \<Rightarrow> error + (('s, 'r) atari_env \<times> 'r video_file list)" where
  "atari_save_episode py self dn =
     (case episode_saving_path self of
        Some path \<Rightarrow>
          if dn then
            (case stack_buf (episode_video self) of
               Inl e \<Rightarrow> Inl e
             | Inr v \<Rightarrow>
                (case stack_buf (episode_video_pre self) of
                   Inl e \<Rightarrow> Inl e
                 | Inr vp \<Rightarrow>
                    (case episode_score self of
                       None \<Rightarrow> Inl AttributeError
                     | Some score \<Rightarrow>
                        (case (if grayscale_obs self then gray_to_rgb vp else Inr vp) of
                           Inl e \<Rightarrow> Inl e
                         | Inr vp_rgb \<Rightarrow>
                            Inr (self\<lparr>episode_video := Some (Stacked v),
                                      episode_video_pre := Some (Stacked vp)\<rparr>,
                                 [\<lparr>filename = path_join path (date_time_score py score @ ''.mp4''),
                                   video_array = v, video_fps = fps self\<rparr>,
                                  \<lparr>filename =
                                     path_join path (date_time_score py score @ ''_pre.mp4''),
                                   video_array = vp_rgb, video_fps = fps self\<rparr>])))))
          else Inr (self, [])
      | None \<Rightarrow> Inr (self, []))"

text \<open>The history update of \<^verbatim>\<open>step\<close>: one frame's worth of channels out, the new
  frame in, when there is more than one history frame.\<close>

definition atari_update_history :: "('s, 'r) atari_env \<Rightarrow> frame \<Rightarrow> error + frame" where
  "atari_update_history self state1 =
     (if history_frames self > 1 then
        (case history self of
           None \<Rightarrow> Inl AttributeError
         | Some h \<Rightarrow>
            (case slice_from (if grayscale_obs self then 1 else 3) h of
               Inl e \<Rightarrow> Inl e
             | Inr hs \<Rightarrow> cat0 hs state1))
      else Inr state1)"

definition AtariEnv_step ::
  "'r python \<Rightarrow> ('s, 'a, 'r::plus) gym_sim \<Rightarrow> ('s, 'r) atari_env \<Rightarrow> 'a tensor
     \<Rightarrow> error + ('r transition \<times> ('s, 'r) atari_env \<times> 'r video_file list)" where
  "AtariEnv_step py sim self action =
     (case item action of
        Inl e \<Rightarrow> Inl e
      | Inr a \<Rightarrow>
         (case gym_step sim (env self) a of
            None \<Rightarrow> Inl SimulatorFailure
          | Some ((st, rew, dn), s') \<Rightarrow>
             (case episode_score self of
                None \<Rightarrow> Inl AttributeError
              | Some score \<Rightarrow>
                 (case atari_add_to_video sim
                         (self\<lparr>env := s', episode_score := Some (score + rew)\<rparr>) st of
                    Inl e \<Rightarrow> Inl e
                  | Inr self1 \<Rightarrow>
                     (case atari_save_episode py self1 dn of
                        Inl e \<Rightarrow> Inl e
                      | Inr (self2, files) \<Rightarrow>
                         (case AtariEnv_preprocess py sim self2 st rew dn of
                            Inl e \<Rightarrow> Inl e
                          | Inr (state1, reward_t, done_t, is_last_t) \<Rightarrow>
                             (case atari_update_history self2 state1 of
                                Inl e \<Rightarrow> Inl e
                              | Inr h' \<Rightarrow>
                                 Inr (\<lparr>state = h', reward = reward_t, done_flag = done_t,
                                       is_first = False, is_last = is_last_t\<rparr>,
                                      self2\<lparr>history := Some h'\<rparr>, files))))))))"

section \<open>The collate utility\<close>

text \<open>
  \<^verbatim>\<open>nnet/utils/collate_fn.py\<close>. A collate parameter is a dictionary read at the key
  \<^verbatim>\<open>"axis"\<close>; the parameter structure is a dictionary, a list or a tuple of them. A
  dictionary is a list of key-value pairs in insertion order; its keys are strings or
  integers. A sample is a sequence of tensors, indexed as Python indexes a list.
\<close>

datatype pykey = KStr string | KInt int

type_synonym params = "(string \<times> int) list"

datatype collate_params =
    PDict "(pykey \<times> params) list"
  | PList "params list"
  | PTuple "params list"

datatype 'a collated =
    CDict "(pykey \<times> 'a tensor) list"
  | CList "'a tensor list"
  | CTuple "'a tensor list"
  | CItem "'a tensor"

text \<open>\<^verbatim>\<open>xs[i]\<close>: negative indices count from the end.\<close>

definition py_index :: "'b list \<Rightarrow> int \<Rightarrow> error + 'b" where
  "py_index xs i =
     (if 0 \<le> i \<and> i < int (length xs) then Inr (xs ! nat i)
      else if i < 0 \<and> - int (length xs) \<le> i then Inr (xs ! nat (int (length xs) + i))
      else Inl IndexError)"

text \<open>\<^verbatim>\<open>[sample[params["axis"]] for sample in samples]\<close>: the key is read once per
  sample, so no sample means no \<open>KeyError\<close>.\<close>

fun select :: "'a tensor list list \<Rightarrow> params \<Rightarrow> error + 'a tensor list" where
  "select [] ps = Inr []"
| "select (sample # samples) ps =
     (case map_of ps ''axis'' of
        None \<Rightarrow> Inl KeyError
      | Some ax \<Rightarrow>
         (case py_index sample ax of
            Inl e \<Rightarrow> Inl e
          | Inr x \<Rightarrow>
             (case select samples ps of
                Inl e \<Rightarrow> Inl e
              | Inr xs \<Rightarrow> Inr (x # xs))))"

definition collate_one :: "'a tensor list list \<Rightarrow> params \<Rightarrow> error + 'a tensor" where
  "collate_one samples ps =
     (case select samples ps of Inl e \<Rightarrow> Inl e | Inr c \<Rightarrow> stack c)"

text \<open>\<^verbatim>\<open>d[k] = v\<close> and \<^verbatim>\<open>d[k]\<close> on a dictionary.\<close>

fun dict_set :: "pykey \<Rightarrow> 'v \<Rightarrow> (pykey \<times> 'v) list \<Rightarrow> (pykey \<times> 'v) list" where
  "dict_set k v [] = [(k, v)]"
| "dict_set k v ((k', v') # d) = (if k = k' then (k, v) # d else (k', v') # dict_set k v d)"

definition dict_get :: "(pykey \<times> 'v) list \<Rightarrow> pykey \<Rightarrow> error + 'v" where
  "dict_get d k = (case map_of d k of None \<Rightarrow> Inl KeyError | Some v \<Rightarrow> Inr v)"

text \<open>The two loops: over the items of a dictionary, and over a list or tuple.\<close>

fun collate_items ::
  "'a tensor list list \<Rightarrow> (pykey \<times> params) list \<Rightarrow> (pykey \<times> 'a tensor) list
     \<Rightarrow> error + (pykey \<times> 'a tensor) list" where
  "collate_items samples [] collates = Inr collates"
| "collate_items samples ((name, ps) # rest) collates =
     (case collate_one samples ps of
        Inl e \<Rightarrow> Inl e
      | Inr c \<Rightarrow> collate_items samples rest (dict_set name c collates))"

fun collate_list ::
  "'a tensor list list \<Rightarrow> params list \<Rightarrow> 'a tensor list \<Rightarrow> error + 'a tensor list" where
  "collate_list samples [] collates = Inr collates"
| "collate_list samples (ps # rest) collates =
     (case collate_one samples ps of
        Inl e \<Rightarrow> Inl e
      | Inr c \<Rightarrow> collate_list samples rest (collates @ [c]))"

text \<open>\<^verbatim>\<open>collates[0] if len(collates) == 1 else collates\<close>: on a dictionary,
  \<^verbatim>\<open>collates[0]\<close> looks the key \<open>0\<close> up.\<close>

definition single_elt :: "'a collated \<Rightarrow> error + 'a collated" where
  "single_elt collates =
     (case collates of
        CDict d \<Rightarrow> if length d = 1
                   then (case dict_get d (KInt 0) of Inl e \<Rightarrow> Inl e | Inr x \<Rightarrow> Inr (CItem x))
                   else Inr (CDict d)
      | CList xs \<Rightarrow> if length xs = 1
                    then (case py_index xs 0 of Inl e \<Rightarrow> Inl e | Inr x \<Rightarrow> Inr (CItem x))
                    else Inr (CList xs)
      | CTuple xs \<Rightarrow> if length xs = 1
                     then (case py_index xs 0 of Inl e \<Rightarrow> Inl e | Inr x \<Rightarrow> Inr (CItem x))
                     else Inr (CTuple xs)
      | CItem x \<Rightarrow> Inr (CItem x))"

definition CollateFn_collate ::
  "'a tensor list list \<Rightarrow> collate_params \<Rightarrow> error + 'a collated" where
  "CollateFn_collate samples collate_params =
     (case collate_params of
        PDict d \<Rightarrow>
          (case collate_items samples d [] of
             Inl e \<Rightarrow> Inl e
           | Inr collates \<Rightarrow> single_elt (CDict collates))
      | PList l \<Rightarrow>
          (case collate_list samples l [] of
             Inl e \<Rightarrow> Inl e
           | Inr collates \<Rightarrow> single_elt (CList collates))
      | PTuple l \<Rightarrow>
          (case collate_list samples l [] of
             Inl e \<Rightarrow> Inl e
           | Inr collates \<Rightarrow> single_elt (CTuple collates)))"

section \<open>The vocabulary of the properties\<close>

text \<open>
  Not functions of the source: the words the properties use about a channel-first image
  stack. \<open>channels\<close> is the size of the first axis, \<open>chan_size\<close> the number of samples of
  one channel, \<open>first_channels n\<close> and \<open>last_channels n\<close> the samples of the first and
  the last \<open>n\<close> channels, and \<open>frame_slice i c\<close> the \<open>i\<close>-th group of \<open>c\<close> channels.
\<close>

definition channels :: "'a tensor \<Rightarrow> nat" where
  "channels t = (case shape t of [] \<Rightarrow> 0 | c # _ \<Rightarrow> c)"

definition chan_size :: "'a tensor \<Rightarrow> nat" where
  "chan_size t = prod_list (tl (shape t))"

definition first_channels :: "nat \<Rightarrow> 'a tensor \<Rightarrow> 'a list" where
  "first_channels n t = take (n * chan_size t) (data t)"

definition last_channels :: "nat \<Rightarrow> 'a tensor \<Rightarrow> 'a list" where
  "last_channels n t = drop ((channels t - n) * chan_size t) (data t)"


text \<open>What a call returned, when it returned.\<close>

definition returned :: "error + ('t \<times> 'e \<times> 'f) \<Rightarrow> 't option" where
  "returned r = (case r of Inl _ \<Rightarrow> None | Inr (tr, _, _) \<Rightarrow> Some tr)"

definition left_state :: "error + ('t \<times> 'e \<times> 'f) \<Rightarrow> 'e option" where
  "left_state r = (case r of Inl _ \<Rightarrow> None | Inr (_, self', _) \<Rightarrow> Some self')"

definition written :: "error + ('t \<times> 'e \<times> 'f) \<Rightarrow> 'f option" where
  "written r = (case r of Inl _ \<Rightarrow> None | Inr (_, _, files) \<Rightarrow> Some files)"


section \<open>A small simulator and adapter, to run the model on\<close>

text \<open>
  The theorems below hold for every simulator. To run them once, a simulator that
  counts its steps: step \<open>k\<close> renders a one-pixel colour image of value \<open>k\<close>, pays the
  reward \<open>k\<close> and ends its episode at the third step. Rewards are integers here.
\<close>

definition toy_frame :: "nat \<Rightarrow> frame" where
  "toy_frame v = \<lparr>shape = [1, 1, 3], data = [of_nat v, of_nat v, of_nat v]\<rparr>"

definition toy_sim :: "(nat, int) dm_sim" where
  "toy_sim =
     \<lparr>sim_reset = (\<lambda>s. Some (\<lparr>ts_pixels = toy_frame 0, ts_reward = 0, ts_last = False\<rparr>, 0)),
      sim_step = (\<lambda>s a. Some (\<lparr>ts_pixels = toy_frame (Suc s), ts_reward = int (Suc s),
                                 ts_last = (3 \<le> Suc s)\<rparr>, Suc s)),
      sim_render = (\<lambda>s cam. toy_frame s)\<rparr>"

definition toy_python :: "int python" where
  "toy_python =
     \<lparr>float32 = (\<lambda>x. x), str_float = (\<lambda>x. ''score''), now = ''2026-01-01 12:00:00''\<rparr>"

text \<open>A pendulum task with two history frames, recording on, three repeats; and its
  state after \<^verbatim>\<open>reset()\<close>.\<close>

definition toy_pendulum :: "(nat, int) dmc_env" where
  "toy_pendulum = Pendulum 0 (1, 1) 2 (Some ''ep'') 3"

definition toy_pendulum1 :: "(nat, int) dmc_env" where
  "toy_pendulum1 =
     toy_pendulum\<lparr>env := 0, history := Some \<lparr>shape = [6, 1, 1], data = [0, 0, 0, 0, 0, 0]\<rparr>,
       episode_score := Some 0, episode_video := Some (PyList []),
       episode_video_pre := Some (PyList []), num_channels := Some 3\<rparr>"

definition toy_action :: "int tensor" where
  "toy_action = \<lparr>shape = [1], data = [5]\<rparr>"

text \<open>
  For the Atari adapter, a simulator whose state is the number of lives left: every
  step costs a life and so ends an episode in the wrapper's eyes
  (\<^verbatim>\<open>terminal_on_life_loss\<close>), and the game is over when no life is left. The screen is
  one grayscale pixel. The adapter has two history frames and records; \<open>toy_atari1\<close> is
  its state after \<^verbatim>\<open>reset()\<close>.
\<close>

definition toy_gym :: "(nat, int, int) gym_sim" where
  "toy_gym =
     \<lparr>gym_reset = (\<lambda>s. Some (\<lparr>shape = [1, 1], data = [0]\<rparr>, 3)),
      gym_step = (\<lambda>s a. Some ((\<lparr>shape = [1, 1], data = [of_nat s]\<rparr>, 1, True), s - 1)),
      get_image = (\<lambda>s. toy_frame s),
      game_over = (\<lambda>s. s = 0)\<rparr>"

definition toy_atari :: "(nat, int) atari_env" where
  "toy_atari =
     \<lparr>img_size = (1, 1), history_frames = 2, action_repeat = 4,
      episode_saving_path = Some ''ep'', num_actions = 4, fps = 15, env = 0,
      history = None, episode_score = None, episode_video = None,
      episode_video_pre = None, grayscale_obs = True, terminal_on_life_loss = True\<rparr>"

definition toy_atari1 :: "(nat, int) atari_env" where
  "toy_atari1 =
     toy_atari\<lparr>env := 3, history := Some \<lparr>shape = [2, 1, 1], data = [0, 0]\<rparr>,
       episode_score := Some 0, episode_video := Some (PyList []),
       episode_video_pre := Some (PyList [])\<rparr>"

text \<open>A scalar action, and an action that is none of the four the adapter declares.\<close>

definition toy_scalar :: "int tensor" where
  "toy_scalar = \<lparr>shape = [], data = [2]\<rparr>"

definition toy_out_of_range :: "int tensor" where
  "toy_out_of_range = \<lparr>shape = [1], data = [- 1]\<rparr>"

text \<open>An action of two elements for the pendulum, which takes one.\<close>

definition toy_wide_action :: "int tensor" where
  "toy_wide_action = \<lparr>shape = [2], data = [0, 0]\<rparr>"

text \<open>Two samples for the collate utility, each of one slot that holds a one-element
  tensor.\<close>

definition toy_samples :: "int tensor list list" where
  "toy_samples = [[\<lparr>shape = [1], data = [1]\<rparr>], [\<lparr>shape = [1], data = [2]\<rparr>]]"

section \<open>Properties\<close>

lemmas tensor_defs = permute_201_def permute_120_def repeat_n11_def slice_from_def cat0_def
  stack_def gray_to_rgb_def clip_def tolist_def unsqueeze0_def item_def

lemmas dmc_defs = DeepMindControlEnv_reset_def DeepMindControlEnv_step_def process_infos_def
  add_to_video_def save_episode_def get_obs_def append_frame_def stack_buf_def
  date_time_score_def replace_spaces_def path_join_def Pendulum_def DeepMindControlEnv_init_def

lemmas toy_defs = toy_frame_def toy_sim_def toy_python_def toy_pendulum_def toy_pendulum1_def
  toy_action_def toy_gym_def toy_atari_def toy_atari1_def toy_scalar_def toy_out_of_range_def
  toy_wide_action_def toy_samples_def

lemmas atari_defs = AtariEnv_reset_def AtariEnv_step_def AtariEnv_preprocess_def
  atari_add_to_video_def atari_save_episode_def atari_update_history_def append_frame_def
  stack_buf_def date_time_score_def replace_spaces_def path_join_def

subsection \<open>The repeat loop of the continuous-control adapter\<close>

lemma add_to_video_frame:
  "add_to_video sim self obs = Inr self' \<Longrightarrow>
     env self' = env self \<and> episode_saving_path self' = episode_saving_path self
     \<and> history self' = history self \<and> episode_score self' = episode_score self
     \<and> history_frames self' = history_frames self \<and> fps self' = fps self"
  by (auto simp: add_to_video_def split: if_splits sum.splits)

text \<open>
  The loop's accumulators against the simulator's own trace: the reward is the running
  sum, left to right, and the flag is the disjunction of the steps' flags.
\<close>

lemma repeat_loop_trace:
  "repeat_loop sim a n (self, obs, rew, dn) = Inr (self', obs', rew', dn') \<Longrightarrow>
     \<exists>tss. sim_trace sim (env self) a n = Some tss \<and> length tss = n
        \<and> rew' = foldl (+) rew (map ts_reward tss)
        \<and> dn' = (dn \<or> (\<exists>ts \<in> set tss. ts_last ts))"
proof (induction n arbitrary: self obs rew dn)
  case 0
  then show ?case by simp
next
  case (Suc n)
  from Suc.prems obtain infos s' obs_pixels self1 where
    st: "sim_step sim (env self) a = Some (infos, s')" and
    pi: "process_infos infos = Inr (obs_pixels, ts_reward infos, ts_last infos)" and
    av: "add_to_video sim (self\<lparr>env := s'\<rparr>) obs_pixels = Inr self1" and
    rest: "repeat_loop sim a n (self1, Some obs_pixels, rew + ts_reward infos, dn \<or> ts_last infos)
             = Inr (self', obs', rew', dn')"
    by (auto simp: process_infos_def split: option.splits sum.splits prod.splits)
  from add_to_video_frame[OF av] have e: "env self1 = s'" by simp
  from Suc.IH[OF rest] e obtain tss where
    "sim_trace sim s' a n = Some tss" "length tss = n"
    "rew' = foldl (+) (rew + ts_reward infos) (map ts_reward tss)"
    "dn' = ((dn \<or> ts_last infos) \<or> (\<exists>ts \<in> set tss. ts_last ts))"
    by auto
  with st show ?case by auto
qed

subsection \<open>Tensors\<close>

lemma length_permute_201:
  "permute_201 t = Inr p \<Longrightarrow>
     \<exists>h w c. shape t = [h, w, c] \<and> shape p = [c, h, w] \<and> length (data p) = c * (h * w)"
  by (auto simp: permute_201_def length_concat comp_def sum_list_triv
           split: list.splits)

lemma wf_permute_201: "permute_201 t = Inr p \<Longrightarrow> wf_tensor p"
  by (auto simp: wf_tensor_def dest: length_permute_201)




lemma slide_window:
  assumes h: "shape h = [H * c, hh, ww]" and wfh: "wf_tensor h"
    and o: "shape obs = [c, hh, ww]" and wfo: "wf_tensor obs"
    and H: "1 \<le> H"
    and sl: "slice_from c h = Inr hs" and ct: "cat0 hs obs = Inr new"
  shows "shape new = shape h
         \<and> first_channels ((H - 1) * c) new = last_channels ((H - 1) * c) h
         \<and> last_channels c new = data obs"
proof -
  let ?m = "hh * ww"
  from H obtain k where k: "H = Suc k" by (cases H) auto
  from wfh h have lh: "length (data h) = H * c * ?m" by (simp add: wf_tensor_def)
  from sl h have hs: "hs = \<lparr>shape = [H * c - c, hh, ww], data = drop (c * ?m) (data h)\<rparr>"
    by (simp add: slice_from_def)
  from ct hs o have new: "new = \<lparr>shape = [H * c - c + c, hh, ww],
                                  data = drop (c * ?m) (data h) @ data obs\<rparr>"
    by (simp add: cat0_def)
  have ld: "length (drop (c * ?m) (data h)) = k * c * ?m"
    using lh k by (simp add: algebra_simps)
  have s: "shape new = shape h" using new h k by simp
  have f: "first_channels ((H - 1) * c) new = drop (c * ?m) (data h)"
    using new ld k by (simp add: first_channels_def chan_size_def)
  have l: "last_channels ((H - 1) * c) h = drop (c * ?m) (data h)"
    using h k by (simp add: last_channels_def chan_size_def channels_def)
  have n: "last_channels c new = data obs"
    using new ld k by (simp add: last_channels_def chan_size_def channels_def)
  from s f l n show ?thesis by simp
qed

lemma no_window:
  assumes "shape h = [c, hh, ww]" "wf_tensor h" "shape obs = [c, hh, ww]" "wf_tensor obs"
  shows "shape obs = shape h
         \<and> first_channels 0 obs = last_channels 0 h
         \<and> last_channels c obs = data obs"
  using assms
  by (simp add: first_channels_def last_channels_def chan_size_def channels_def wf_tensor_def)

subsection \<open>Reset\<close>



lemma atari_preprocess_state:
  assumes "AtariEnv_preprocess py sim self raw rew dn = Inr (state1, r, d, l)"
    and "wf_tensor raw"
  shows "wf_tensor state1 \<and> shape state1 \<noteq> []
         \<and> state1 = (if grayscale_obs self then unsqueeze0 raw
                      else (case permute_201 raw of Inr p \<Rightarrow> p | Inl _ \<Rightarrow> state1))"
  using assms
  by (auto simp: AtariEnv_preprocess_def Let_def unsqueeze0_def wf_tensor_def
           dest!: length_permute_201 split: if_splits sum.splits)




subsection \<open>The continuous-control step\<close>

lemma add_to_video_attrs:
  "add_to_video sim self obs = Inr self' \<Longrightarrow>
     num_actions self' = num_actions self \<and> action_repeat self' = action_repeat self
     \<and> img_size self' = img_size self"
  by (auto simp: add_to_video_def split: if_splits sum.splits)

lemma repeat_loop_frame:
  "repeat_loop sim a n (self, obs, rew, dn) = Inr (self', obs', rew', dn') \<Longrightarrow>
     history self' = history self \<and> episode_saving_path self' = episode_saving_path self
     \<and> episode_score self' = episode_score self \<and> history_frames self' = history_frames self
     \<and> fps self' = fps self"
proof (induction n arbitrary: self obs rew dn)
  case 0
  then show ?case by simp
next
  case (Suc n)
  from Suc.prems obtain infos s' obs_pixels self1 r1 d1 where
    av: "add_to_video sim (self\<lparr>env := s'\<rparr>) obs_pixels = Inr self1" and
    rest: "repeat_loop sim a n (self1, Some obs_pixels, r1, d1) = Inr (self', obs', rew', dn')"
    by (auto split: option.splits sum.splits prod.splits)
  from add_to_video_frame[OF av] Suc.IH[OF rest] show ?case by simp
qed

lemma repeat_loop_obs:
  "repeat_loop sim a n (self, obs, rew, dn) = Inr (self', obs', rew', dn') \<Longrightarrow>
   sim_trace sim (env self) a n = Some tss \<Longrightarrow>
     (tss = [] \<and> obs' = obs) \<or>
     (tss \<noteq> [] \<and> (\<exists>p. permute_201 (ts_pixels (last tss)) = Inr p \<and> obs' = Some p))"
proof (induction n arbitrary: self obs rew dn tss)
  case 0
  then show ?case by simp
next
  case (Suc n)
  from Suc.prems(1) obtain infos s' obs_pixels self1 r1 d1 where
    st: "sim_step sim (env self) a = Some (infos, s')" and
    pi: "permute_201 (ts_pixels infos) = Inr obs_pixels" and
    av: "add_to_video sim (self\<lparr>env := s'\<rparr>) obs_pixels = Inr self1" and
    rest: "repeat_loop sim a n (self1, Some obs_pixels, r1, d1) = Inr (self', obs', rew', dn')"
    by (auto simp: process_infos_def split: option.splits sum.splits prod.splits)
  from add_to_video_frame[OF av] have e: "env self1 = s'" by simp
  from Suc.prems(2) st obtain tss' where
    t: "sim_trace sim s' a n = Some tss'" and tss: "tss = infos # tss'"
    by (auto split: option.splits)
  from Suc.IH[OF rest] e t have
    "(tss' = [] \<and> obs' = Some obs_pixels) \<or>
     (tss' \<noteq> [] \<and> (\<exists>p. permute_201 (ts_pixels (last tss')) = Inr p \<and> obs' = Some p))"
    by simp
  with tss pi show ?case by auto
qed



lemma save_episode_files:
  "save_episode py self d = Inr (self', files) \<Longrightarrow>
     (files \<noteq> []) = (d \<and> episode_saving_path self \<noteq> None)
     \<and> history self' = history self \<and> history_frames self' = history_frames self"
  by (auto simp: save_episode_def split: option.splits sum.splits if_splits)


text \<open>The step, taken apart.\<close>

lemma dmc_step_parts:
  assumes "DeepMindControlEnv_step py sim self action = Inr (tr, self', files)"
  shows "\<exists>self1 obs_pixels rew dn score self2 h h3.
           shape action = [num_actions self]
           \<and> repeat_loop sim (tolist (clip (clip_low self) (clip_high self) action))
                (action_repeat self) (self, None, 0, False) = Inr (self1, Some obs_pixels, rew, dn)
           \<and> episode_score self1 = Some score
           \<and> save_episode py (self1\<lparr>episode_score := Some (score + rew)\<rparr>) dn
                = Inr (self2, files)
           \<and> history self2 = Some h \<and> slice_from 3 h = Inr h3
           \<and> cat0 h3 obs_pixels = Inr (state tr)
           \<and> reward tr = float32 py rew \<and> \<not> done_flag tr \<and> \<not> is_last tr \<and> \<not> is_first tr
           \<and> self' = self2\<lparr>history := Some (state tr)\<rparr>"
  using assms
  by (auto simp: DeepMindControlEnv_step_def Let_def
           split: if_splits sum.splits option.splits prod.splits)

lemma dmc_step_trace:
  assumes "DeepMindControlEnv_step py sim self action = Inr (tr, self', files)"
  shows "\<exists>tss obs. sim_trace sim (env self)
                 (tolist (clip (clip_low self) (clip_high self) action)) (action_repeat self)
               = Some tss
           \<and> length tss = action_repeat self \<and> tss \<noteq> []
           \<and> permute_201 (ts_pixels (last tss)) = Inr obs
           \<and> (\<exists>h h3. history self = Some h \<and> slice_from 3 h = Inr h3
                      \<and> cat0 h3 obs = Inr (state tr))
           \<and> history self' = Some (state tr)
           \<and> (files \<noteq> []) = ((\<exists>ts \<in> set tss. ts_last ts) \<and> episode_saving_path self \<noteq> None)"
proof -
  let ?a = "tolist (clip (clip_low self) (clip_high self) action)"
  from dmc_step_parts[OF assms] obtain self1 obs_pixels rew dn score self2 h h3 where
    loop: "repeat_loop sim ?a (action_repeat self) (self, None, 0, False)
             = Inr (self1, Some obs_pixels, rew, dn)" and
    save: "save_episode py (self1\<lparr>episode_score := Some (score + rew)\<rparr>) dn = Inr (self2, files)" and
    h: "history self2 = Some h" "slice_from 3 h = Inr h3" "cat0 h3 obs_pixels = Inr (state tr)" and
    s': "self' = self2\<lparr>history := Some (state tr)\<rparr>"
    by blast
  from repeat_loop_trace[OF loop] obtain tss where
    t: "sim_trace sim (env self) ?a (action_repeat self) = Some tss"
       "length tss = action_repeat self"
       "dn = (\<exists>ts \<in> set tss. ts_last ts)" by auto
  from repeat_loop_obs[OF loop t(1)] have
    o: "tss \<noteq> []" "permute_201 (ts_pixels (last tss)) = Inr obs_pixels" by auto
  from repeat_loop_frame[OF loop] have
    f: "history self1 = history self" "episode_saving_path self1 = episode_saving_path self"
    by auto
  from save_episode_files[OF save] f t(3) h(1) have
    "history self = Some h"
    "(files \<noteq> []) = ((\<exists>ts \<in> set tss. ts_last ts) \<and> episode_saving_path self \<noteq> None)"
    by auto
  with t o h s' show ?thesis by auto
qed

lemma dmc_step_window:
  assumes step: "DeepMindControlEnv_step py sim self action = Inr (tr, self', files)"
    and h: "history self = Some h" "shape h = [history_frames self * 3, hh, ww]" "wf_tensor h"
    and H: "1 \<le> history_frames self"
    and t: "sim_trace sim (env self)
              (tolist (clip (clip_low self) (clip_high self) action)) (action_repeat self)
            = Some tss"
    and px: "shape (ts_pixels (last tss)) = [hh, ww, 3]"
  shows "\<exists>obs. permute_201 (ts_pixels (last tss)) = Inr obs
           \<and> shape (state tr) = shape h
           \<and> first_channels ((history_frames self - 1) * 3) (state tr)
               = last_channels ((history_frames self - 1) * 3) h
           \<and> last_channels 3 (state tr) = data obs"
proof -
  from dmc_step_trace[OF step] t h(1) obtain obs h3 where
    p: "permute_201 (ts_pixels (last tss)) = Inr obs" and
    sl: "slice_from 3 h = Inr h3" and ct: "cat0 h3 obs = Inr (state tr)"
    by auto
  from length_permute_201[OF p] px have so: "shape obs = [3, hh, ww]" by auto
  from slide_window[OF h(2) h(3) so wf_permute_201[OF p] H sl ct] p show ?thesis by blast
qed

lemma cat0_shape:
  "cat0 a b = Inr c \<Longrightarrow> shape a = ca # r \<Longrightarrow> shape b = cb # r \<Longrightarrow> shape c = (ca + cb) # r"
  by (auto simp: cat0_def)

lemma dmc_reset_shape:
  assumes "DeepMindControlEnv_reset sim self = Inr (tr, self')"
    and "sim_reset sim (env self) = Some (infos, s')"
    and "shape (ts_pixels infos) = [hh, ww, 3]"
  shows "shape (state tr) = [3 * history_frames self, hh, ww]"
  using assms
  by (auto simp: DeepMindControlEnv_reset_def process_infos_def Let_def permute_201_def
                 repeat_n11_def
           split: option.splits sum.splits prod.splits list.splits if_splits)

lemma dmc_step_shape:
  assumes step: "DeepMindControlEnv_step py sim self action = Inr (tr, self', files)"
    and h: "history self = Some h" "shape h = [3 * history_frames self, hh, ww]"
    and H: "1 \<le> history_frames self"
    and t: "sim_trace sim (env self)
              (tolist (clip (clip_low self) (clip_high self) action)) (action_repeat self)
            = Some tss"
    and px: "shape (ts_pixels (last tss)) = [hh, ww, 3]"
  shows "shape (state tr) = [3 * history_frames self, hh, ww]"
proof -
  from dmc_step_trace[OF step] t h(1) obtain obs h3 where
    p: "permute_201 (ts_pixels (last tss)) = Inr obs" and
    sl: "slice_from 3 h = Inr h3" and ct: "cat0 h3 obs = Inr (state tr)"
    by auto
  from length_permute_201[OF p] px have so: "shape obs = [3, hh, ww]" by auto
  from sl h(2) have "shape h3 = [3 * history_frames self - 3, hh, ww]"
    by (auto simp: slice_from_def)
  from cat0_shape[OF ct this so] H show ?thesis by simp
qed

subsection \<open>The Atari step\<close>

lemma item_single: "item t = Inr x \<longleftrightarrow> data t = [x]"
  by (auto simp: item_def split: list.splits)

lemma item_error: "item t = Inl e \<longleftrightarrow> (e = ItemError \<and> numel t \<noteq> 1)"
  by (auto simp: item_def numel_def split: list.splits)

lemma atari_add_to_video_frame:
  "atari_add_to_video sim self st = Inr self' \<Longrightarrow>
     env self' = env self \<and> episode_saving_path self' = episode_saving_path self
     \<and> history self' = history self \<and> episode_score self' = episode_score self
     \<and> history_frames self' = history_frames self \<and> fps self' = fps self
     \<and> grayscale_obs self' = grayscale_obs self
     \<and> terminal_on_life_loss self' = terminal_on_life_loss self"
  by (auto simp: atari_add_to_video_def split: if_splits sum.splits)


lemma atari_save_episode_frame:
  "atari_save_episode py self d = Inr (self', files) \<Longrightarrow>
     (files \<noteq> []) = (d \<and> episode_saving_path self \<noteq> None)
     \<and> env self' = env self \<and> history self' = history self
     \<and> history_frames self' = history_frames self
     \<and> grayscale_obs self' = grayscale_obs self
     \<and> terminal_on_life_loss self' = terminal_on_life_loss self"
  by (auto simp: atari_save_episode_def split: option.splits sum.splits if_splits)


lemma atari_step_parts:
  assumes "AtariEnv_step py sim self action = Inr (tr, self', files)"
  shows "\<exists>a st rew dn s' score self1 self2 state1.
           data action = [a]
           \<and> gym_step sim (env self) a = Some ((st, rew, dn), s')
           \<and> episode_score self = Some score
           \<and> atari_add_to_video sim (self\<lparr>env := s', episode_score := Some (score + rew)\<rparr>) st
                = Inr self1
           \<and> atari_save_episode py self1 dn = Inr (self2, files)
           \<and> AtariEnv_preprocess py sim self2 st rew dn
                = Inr (state1, reward tr, done_flag tr, is_last tr)
           \<and> atari_update_history self2 state1 = Inr (state tr)
           \<and> done_flag tr = dn \<and> \<not> is_first tr
           \<and> self' = self2\<lparr>history := Some (state tr)\<rparr>"
proof -
  from assms obtain a where a: "item action = Inr a"
    by (cases "item action") (simp_all add: AtariEnv_step_def)
  then have d: "data action = [a]" by (simp add: item_single)
  from assms a obtain st rew dn s' where
    g: "gym_step sim (env self) a = Some ((st, rew, dn), s')"
    by (cases "gym_step sim (env self) a") (auto simp: AtariEnv_step_def)
  from assms a g obtain score where sc: "episode_score self = Some score"
    by (cases "episode_score self") (auto simp: AtariEnv_step_def)
  let ?s0 = "self\<lparr>env := s', episode_score := Some (score + rew)\<rparr>"
  from assms a g sc obtain self1 where av: "atari_add_to_video sim ?s0 st = Inr self1"
    by (cases "atari_add_to_video sim ?s0 st") (auto simp: AtariEnv_step_def)
  from assms a g sc av obtain self2 files2 where
    sv: "atari_save_episode py self1 dn = Inr (self2, files2)"
    by (cases "atari_save_episode py self1 dn") (auto simp: AtariEnv_step_def)
  from assms a g sc av sv obtain state1 reward_t done_t is_last_t where
    pp: "AtariEnv_preprocess py sim self2 st rew dn = Inr (state1, reward_t, done_t, is_last_t)"
    by (cases "AtariEnv_preprocess py sim self2 st rew dn") (auto simp: AtariEnv_step_def)
  from assms a g sc av sv pp obtain h' where
    up: "atari_update_history self2 state1 = Inr h'"
    by (cases "atari_update_history self2 state1") (auto simp: AtariEnv_step_def)
  from assms a g sc av sv pp up have
    res: "tr = \<lparr>state = h', reward = reward_t, done_flag = done_t,
                is_first = False, is_last = is_last_t\<rparr>"
         "self' = self2\<lparr>history := Some h'\<rparr>" "files = files2"
    by (simp_all add: AtariEnv_step_def)
  from pp have dt: "done_t = dn"
    by (auto simp: AtariEnv_preprocess_def Let_def split: sum.splits)
  from d g sc av sv pp up res dt show ?thesis by simp
qed

lemma atari_preprocess_parts:
  "AtariEnv_preprocess py sim self st rew dn = Inr (state1, r, d, l) \<Longrightarrow>
     (if grayscale_obs self then Inr (unsqueeze0 st) else permute_201 st) = Inr state1
     \<and> r = float32 py rew \<and> d = dn
     \<and> l = (if terminal_on_life_loss self then game_over sim (env self) else dn)"
  by (cases "if grayscale_obs self then Inr (unsqueeze0 st) else permute_201 st")
     (simp_all add: AtariEnv_preprocess_def Let_def)

lemma atari_step_flags:
  assumes "AtariEnv_step py sim self action = Inr (tr, self', files)"
  shows "is_last tr = (if terminal_on_life_loss self then game_over sim (env self')
                       else done_flag tr)"
proof -
  from atari_step_parts[OF assms] obtain a st rew dn s' score self1 self2 state1 where
    av: "atari_add_to_video sim (self\<lparr>env := s', episode_score := Some (score + rew)\<rparr>) st
           = Inr self1" and
    sv: "atari_save_episode py self1 dn = Inr (self2, files)" and
    pp: "AtariEnv_preprocess py sim self2 st rew dn
           = Inr (state1, reward tr, done_flag tr, is_last tr)" and
    s': "self' = self2\<lparr>history := Some (state tr)\<rparr>"
    by blast
  from atari_add_to_video_frame[OF av] atari_save_episode_frame[OF sv] have
    "terminal_on_life_loss self2 = terminal_on_life_loss self" "env self2 = s'" by auto
  with atari_preprocess_parts[OF pp] s' show ?thesis by simp
qed

lemma atari_step_window:
  assumes step: "AtariEnv_step py sim self action = Inr (tr, self', files)"
    and c: "c = (if grayscale_obs self then 1 else 3)"
    and h: "history self = Some h" "shape h = [history_frames self * c, hh, ww]" "wf_tensor h"
    and H: "1 \<le> history_frames self"
    and g: "data action = [a]" "gym_step sim (env self) a = Some ((raw, rew, dn), s')"
    and raw: "wf_tensor raw" "shape raw = (if grayscale_obs self then [hh, ww] else [hh, ww, 3])"
  shows "\<exists>obs. (if grayscale_obs self then Inr (unsqueeze0 raw) else permute_201 raw) = Inr obs
           \<and> shape (state tr) = shape h
           \<and> first_channels ((history_frames self - 1) * c) (state tr)
               = last_channels ((history_frames self - 1) * c) h
           \<and> last_channels c (state tr) = data obs"
proof -
  from atari_step_parts[OF step] g obtain score self1 self2 state1 where
    av: "atari_add_to_video sim (self\<lparr>env := s', episode_score := Some (score + rew)\<rparr>) raw
           = Inr self1" and
    sv: "atari_save_episode py self1 dn = Inr (self2, files)" and
    pp: "AtariEnv_preprocess py sim self2 raw rew dn
           = Inr (state1, reward tr, done_flag tr, is_last tr)" and
    up: "atari_update_history self2 state1 = Inr (state tr)"
    by auto
  from atari_add_to_video_frame[OF av] atari_save_episode_frame[OF sv] have
    fr: "grayscale_obs self2 = grayscale_obs self" "history self2 = history self"
        "history_frames self2 = history_frames self" by auto
  from atari_preprocess_parts[OF pp] fr(1) have
    ob: "(if grayscale_obs self then Inr (unsqueeze0 raw) else permute_201 raw) = Inr state1"
    by simp
  from atari_preprocess_state[OF pp raw(1)] have wfo: "wf_tensor state1" by simp
  have so: "shape state1 = [c, hh, ww]"
  proof (cases "grayscale_obs self")
    case True
    with ob raw(2) c show ?thesis by (auto simp: unsqueeze0_def)
  next
    case False
    with ob have "permute_201 raw = Inr state1" by simp
    from length_permute_201[OF this] raw(2) c False show ?thesis by auto
  qed
  show ?thesis
  proof (cases "history_frames self > 1")
    case True
    with up fr h(1) c obtain hs where
      sl: "slice_from c h = Inr hs" and ct: "cat0 hs state1 = Inr (state tr)"
      by (cases "slice_from c h") (auto simp: atari_update_history_def)
    from slide_window[OF h(2) h(3) so wfo H sl ct] ob show ?thesis by blast
  next
    case False
    with H have one: "history_frames self = 1" by simp
    with up fr have st: "state tr = state1" by (simp add: atari_update_history_def)
    from one h(2) have "shape h = [c, hh, ww]" by simp
    from no_window[OF this h(3) so wfo] one st ob show ?thesis by auto
  qed
qed

subsection \<open>The model, run\<close>

text \<open>Where addition is associative with unit \<open>0\<close>, the running sum is the sum.\<close>

lemma foldl_plus_sum_list: "foldl (+) a xs = a + sum_list (xs :: 'a::monoid_add list)"
  by (induction xs arbitrary: a) (simp_all add: add.assoc)

lemma toy_reset: "\<exists>tr. DeepMindControlEnv_reset toy_sim toy_pendulum = Inr (tr, toy_pendulum1)"
  by (simp add: tensor_defs dmc_defs toy_defs eval_nat_numeral)

lemma toy_step_returns:
  "\<exists>r. DeepMindControlEnv_step toy_python toy_sim toy_pendulum1 toy_action = Inr r"
  by (simp add: tensor_defs dmc_defs toy_defs eval_nat_numeral Let_def)

lemma toy_clipped:
  "tolist (clip (clip_low toy_pendulum1) (clip_high toy_pendulum1) toy_action) = [1]"
  by (simp add: tensor_defs dmc_defs toy_defs)

lemma toy_attrs:
  "env toy_pendulum1 = 0" "action_repeat toy_pendulum1 = 3"
  "episode_saving_path toy_pendulum1 = Some ''ep''" "history_frames toy_pendulum1 = 2"
  by (simp_all add: dmc_defs toy_defs)

lemma toy_trace:
  "sim_trace toy_sim 0 [1] 3 =
     Some [\<lparr>ts_pixels = toy_frame 1, ts_reward = 1, ts_last = False\<rparr>,
           \<lparr>ts_pixels = toy_frame 2, ts_reward = 2, ts_last = False\<rparr>,
           \<lparr>ts_pixels = toy_frame 3, ts_reward = 3, ts_last = True\<rparr>]"
  by (simp add: toy_sim_def eval_nat_numeral)

text \<open>
  C7. For a continuous-control adapter with \<open>action_repeat = R\<close>, whenever \<open>step\<close>
  returns a Transition, the simulator was stepped \<open>R\<close> times with the clipped action,
  and the Transition's reward is the sum of the \<open>R\<close> rewards it reported: the running
  sum from \<open>0.0\<close> in the order of the steps, emitted as a 32-bit float.
\<close>

theorem step_reward_is_sum:
  assumes "DeepMindControlEnv_step py sim self action = Inr (tr, self', files)"
  shows "\<exists>tss. sim_trace sim (env self)
                 (tolist (clip (clip_low self) (clip_high self) action)) (action_repeat self)
               = Some tss
           \<and> length tss = action_repeat self
           \<and> reward tr = float32 py (foldl (+) 0 (map ts_reward tss))"
proof -
  from assms obtain self1 obs rew dn where
    loop: "repeat_loop sim (tolist (clip (clip_low self) (clip_high self) action))
             (action_repeat self) (self, None, 0, False) = Inr (self1, obs, rew, dn)"
    and r: "reward tr = float32 py rew"
    by (auto simp: DeepMindControlEnv_step_def Let_def
             split: if_splits sum.splits option.splits prod.splits)
  from repeat_loop_trace[OF loop] r show ?thesis by auto
qed

theorem step_reward_is_sum_witness:
  "\<exists>tr self' files.
     DeepMindControlEnv_step toy_python toy_sim toy_pendulum1 toy_action = Inr (tr, self', files)
     \<and> reward tr = 1 + 2 + 3"
proof -
  from toy_step_returns obtain tr self' files where
    s: "DeepMindControlEnv_step toy_python toy_sim toy_pendulum1 toy_action
          = Inr (tr, self', files)"
    by (metis prod_cases3)
  from step_reward_is_sum[OF s] have "reward tr = 1 + 2 + 3"
    by (simp add: toy_clipped toy_attrs toy_trace) (simp add: toy_python_def)
  with s show ?thesis by blast
qed

subsection \<open>What reset returns\<close>

lemma toy_atari_reset:
  "\<exists>tr. AtariEnv_reset toy_python toy_gym toy_atari = Inr (tr, toy_atari1)"
  by (simp add: tensor_defs atari_defs toy_defs eval_nat_numeral Let_def)




subsection \<open>The sliding window\<close>

lemma toy_atari_step_returns:
  "\<exists>r. AtariEnv_step toy_python toy_gym toy_atari1 toy_scalar = Inr r"
  by (simp add: tensor_defs atari_defs toy_defs eval_nat_numeral Let_def)

lemma toy_gym_step:
  "gym_step toy_gym (env toy_atari1) 2 = Some ((\<lparr>shape = [1, 1], data = [3]\<rparr>, 1, True), 2)"
  by (simp add: toy_defs)

lemma toy_history:
  "history toy_pendulum1 = Some \<lparr>shape = [6, 1, 1], data = [0, 0, 0, 0, 0, 0]\<rparr>"
  by (simp add: toy_defs dmc_defs)

text \<open>
  C6. After a step that returns, the History Buffer (the adapter's \<open>history\<close>, which is
  also the state the Transition carries) has the shape it had, its first \<open>(H - 1) * C\<close>
  channels are the last \<open>(H - 1) * C\<close> channels of the buffer before the step, and its
  last \<open>C\<close> channels are the newest observation. \<open>H\<close> is \<open>history_frames\<close>, at least
  one; \<open>C\<close> is 3 for the continuous-control adapter and 1 or 3 (grayscale or colour)
  for the Atari one; the buffer before the step holds \<open>H * C\<close> channels of the size of
  the simulator's frame, as \<^verbatim>\<open>reset\<close> leaves it.
\<close>

theorem history_shift:
  "(DeepMindControlEnv_step py sim self action = Inr (tr, self', files) \<longrightarrow>
      history self = Some h \<longrightarrow> shape h = [history_frames self * 3, hh, ww] \<longrightarrow>
      wf_tensor h \<longrightarrow> 1 \<le> history_frames self \<longrightarrow>
      sim_trace sim (env self) (tolist (clip (clip_low self) (clip_high self) action))
         (action_repeat self) = Some tss \<longrightarrow>
      shape (ts_pixels (last tss)) = [hh, ww, 3] \<longrightarrow>
      (\<exists>obs hb. permute_201 (ts_pixels (last tss)) = Inr obs
         \<and> history self' = Some hb \<and> state tr = hb
         \<and> shape hb = shape h
         \<and> first_channels ((history_frames self - 1) * 3) hb
             = last_channels ((history_frames self - 1) * 3) h
         \<and> last_channels 3 hb = data obs))
   \<and> (AtariEnv_step apy gsim aself aaction = Inr (atr, aself', afiles) \<longrightarrow>
      c = (if grayscale_obs aself then 1 else 3) \<longrightarrow>
      history aself = Some ah \<longrightarrow> shape ah = [history_frames aself * c, ahh, aww] \<longrightarrow>
      wf_tensor ah \<longrightarrow> 1 \<le> history_frames aself \<longrightarrow>
      data aaction = [a] \<longrightarrow> gym_step gsim (env aself) a = Some ((raw, rew, dn), s') \<longrightarrow>
      wf_tensor raw \<longrightarrow>
      shape raw = (if grayscale_obs aself then [ahh, aww] else [ahh, aww, 3]) \<longrightarrow>
      (\<exists>obs hb. (if grayscale_obs aself then Inr (unsqueeze0 raw) else permute_201 raw) = Inr obs
         \<and> history aself' = Some hb \<and> state atr = hb
         \<and> shape hb = shape ah
         \<and> first_channels ((history_frames aself - 1) * c) hb
             = last_channels ((history_frames aself - 1) * c) ah
         \<and> last_channels c hb = data obs))"
proof (intro conjI impI)
  assume s: "DeepMindControlEnv_step py sim self action = Inr (tr, self', files)"
    and r: "history self = Some h" "shape h = [history_frames self * 3, hh, ww]"
    "wf_tensor h" "1 \<le> history_frames self"
    "sim_trace sim (env self) (tolist (clip (clip_low self) (clip_high self) action))
         (action_repeat self) = Some tss"
    "shape (ts_pixels (last tss)) = [hh, ww, 3]"
  from dmc_step_trace[OF s] have hb: "history self' = Some (state tr)" by blast
  from dmc_step_window[OF s r] obtain obs where
    "permute_201 (ts_pixels (last tss)) = Inr obs \<and> shape (state tr) = shape h
       \<and> first_channels ((history_frames self - 1) * 3) (state tr)
           = last_channels ((history_frames self - 1) * 3) h
       \<and> last_channels 3 (state tr) = data obs" by blast
  with hb have "permute_201 (ts_pixels (last tss)) = Inr obs
         \<and> history self' = Some (state tr) \<and> state tr = state tr
         \<and> shape (state tr) = shape h
         \<and> first_channels ((history_frames self - 1) * 3) (state tr)
             = last_channels ((history_frames self - 1) * 3) h
         \<and> last_channels 3 (state tr) = data obs" by simp
  then show "\<exists>obs hb. permute_201 (ts_pixels (last tss)) = Inr obs
         \<and> history self' = Some hb \<and> state tr = hb
         \<and> shape hb = shape h
         \<and> first_channels ((history_frames self - 1) * 3) hb
             = last_channels ((history_frames self - 1) * 3) h
         \<and> last_channels 3 hb = data obs" by blast
next
  assume s: "AtariEnv_step apy gsim aself aaction = Inr (atr, aself', afiles)"
    and r: "c = (if grayscale_obs aself then 1 else 3)"
    "history aself = Some ah" "shape ah = [history_frames aself * c, ahh, aww]"
    "wf_tensor ah" "1 \<le> history_frames aself"
    "data aaction = [a]" "gym_step gsim (env aself) a = Some ((raw, rew, dn), s')"
    "wf_tensor raw"
    "shape raw = (if grayscale_obs aself then [ahh, aww] else [ahh, aww, 3])"
  from atari_step_parts[OF s] have hb: "history aself' = Some (state atr)" by auto
  from atari_step_window[OF s r] obtain obs where
    "(if grayscale_obs aself then Inr (unsqueeze0 raw) else permute_201 raw) = Inr obs
       \<and> shape (state atr) = shape ah
       \<and> first_channels ((history_frames aself - 1) * c) (state atr)
           = last_channels ((history_frames aself - 1) * c) ah
       \<and> last_channels c (state atr) = data obs" by blast
  with hb have "(if grayscale_obs aself then Inr (unsqueeze0 raw) else permute_201 raw) = Inr obs
         \<and> history aself' = Some (state atr) \<and> state atr = state atr
         \<and> shape (state atr) = shape ah
         \<and> first_channels ((history_frames aself - 1) * c) (state atr)
             = last_channels ((history_frames aself - 1) * c) ah
         \<and> last_channels c (state atr) = data obs" by simp
  then show "\<exists>obs hb. (if grayscale_obs aself then Inr (unsqueeze0 raw) else permute_201 raw) = Inr obs
         \<and> history aself' = Some hb \<and> state atr = hb
         \<and> shape hb = shape ah
         \<and> first_channels ((history_frames aself - 1) * c) hb
             = last_channels ((history_frames aself - 1) * c) ah
         \<and> last_channels c hb = data obs" by blast
qed

theorem history_shift_witness:
  "\<exists>tr self' files atr aself' afiles hb ahb.
      DeepMindControlEnv_step toy_python toy_sim
        (toy_pendulum1\<lparr>history := Some \<lparr>shape = [6, 1, 1], data = [7, 7, 7, 8, 8, 8]\<rparr>\<rparr>)
        toy_action = Inr (tr, self', files)
    \<and> AtariEnv_step toy_python toy_gym
        (toy_atari1\<lparr>history := Some \<lparr>shape = [2, 1, 1], data = [7, 8]\<rparr>\<rparr>)
        toy_scalar = Inr (atr, aself', afiles)
    \<and> history self' = Some hb \<and> state tr = hb
    \<and> first_channels 3 hb = [8, 8, 8] \<and> last_channels 3 hb = [3, 3, 3]
    \<and> history aself' = Some ahb \<and> state atr = ahb
    \<and> first_channels 1 ahb = [8] \<and> last_channels 1 ahb = [3]"
proof -
  let ?h = "\<lparr>shape = [6, 1, 1], data = [7, 7, 7, 8, 8, 8]\<rparr> :: frame"
  let ?ah = "\<lparr>shape = [2, 1, 1], data = [7, 8]\<rparr> :: frame"
  let ?p = "toy_pendulum1\<lparr>history := Some ?h\<rparr>"
  let ?q = "toy_atari1\<lparr>history := Some ?ah\<rparr>"
  let ?raw = "\<lparr>shape = [1, 1], data = [3]\<rparr> :: frame"
  let ?tss = "[\<lparr>ts_pixels = toy_frame 1, ts_reward = 1, ts_last = False\<rparr>,
           \<lparr>ts_pixels = toy_frame 2, ts_reward = 2, ts_last = False\<rparr>,
           \<lparr>ts_pixels = toy_frame 3, ts_reward = 3, ts_last = True\<rparr>] :: int timestep list"
  have "\<exists>r. DeepMindControlEnv_step toy_python toy_sim ?p toy_action = Inr r"
    by (simp add: tensor_defs dmc_defs toy_defs eval_nat_numeral Let_def)
  then obtain tr self' files where
    d: "DeepMindControlEnv_step toy_python toy_sim ?p toy_action = Inr (tr, self', files)"
    by (metis prod_cases3)
  have "\<exists>r. AtariEnv_step toy_python toy_gym ?q toy_scalar = Inr r"
    by (simp add: tensor_defs atari_defs toy_defs eval_nat_numeral Let_def)
  then obtain atr aself' afiles where
    a: "AtariEnv_step toy_python toy_gym ?q toy_scalar = Inr (atr, aself', afiles)"
    by (metis prod_cases3)
  note T = history_shift[where py = toy_python and sim = toy_sim and self = ?p
      and action = toy_action and tr = tr and self' = self' and files = files and h = ?h
      and hh = 1 and ww = 1 and tss = ?tss and apy = toy_python and gsim = toy_gym
      and aself = ?q and aaction = toy_scalar and atr = atr and aself' = aself'
      and afiles = afiles and c = 1 and ah = ?ah and ahh = 1 and aww = 1 and a = 2
      and raw = ?raw and rew = 1 and dn = True and s' = 2]
  have d0: "history ?p = Some ?h" by simp
  have d1: "shape ?h = [history_frames ?p * 3, 1, 1]" by (simp add: toy_attrs)
  have d2: "wf_tensor ?h" by (simp add: wf_tensor_def)
  have d3: "1 \<le> history_frames ?p" by (simp add: toy_attrs)
  have d4: "sim_trace toy_sim (env ?p) (tolist (clip (clip_low ?p) (clip_high ?p) toy_action))
              (action_repeat ?p) = Some ?tss"
    using toy_clipped toy_trace by (simp add: toy_attrs clip_def tolist_def)
  have d5: "shape (ts_pixels (last ?tss)) = [1, 1, 3]" by (simp add: toy_frame_def)
  from T[THEN conjunct1, rule_format, OF d d0 d1 d2 d3 d4 d5] obtain obs hb where
    o: "permute_201 (ts_pixels (last ?tss)) = Inr obs" and
    hb: "history self' = Some hb" "state tr = hb" and
    w: "first_channels ((history_frames ?p - 1) * 3) hb
          = last_channels ((history_frames ?p - 1) * 3) ?h"
       "last_channels 3 hb = data obs" by blast
  from o have "data obs = [3, 3, 3]"
    by (auto simp: toy_frame_def permute_201_def eval_nat_numeral)
  with w have r1: "first_channels 3 hb = [8, 8, 8]" "last_channels 3 hb = [3, 3, 3]"
    by (simp_all add: toy_attrs last_channels_def channels_def chan_size_def)
  have a1: "(1::nat) = (if grayscale_obs ?q then 1 else 3)" by (simp add: toy_defs)
  have a2: "history ?q = Some ?ah" by simp
  have a3: "shape ?ah = [history_frames ?q * 1, 1, 1]" by (simp add: toy_defs)
  have a4: "wf_tensor ?ah" by (simp add: wf_tensor_def)
  have a5: "1 \<le> history_frames ?q" by (simp add: toy_defs)
  have a6: "data toy_scalar = [2]" by (simp add: toy_defs)
  have a7: "wf_tensor ?raw" by (simp add: wf_tensor_def)
  have a8: "shape ?raw = (if grayscale_obs ?q then [1, 1] else [1, 1, 3])"
    by (simp add: toy_defs)
  have a9: "gym_step toy_gym (env ?q) 2 = Some ((?raw, 1, True), 2)"
    using toy_gym_step by simp
  from T[THEN conjunct2, rule_format, OF a a1 a2 a3 a4 a5 a6 a9 a7 a8] obtain aobs ahb where
    ao: "(if grayscale_obs ?q then Inr (unsqueeze0 ?raw) else permute_201 ?raw) = Inr aobs"
    and ahb: "history aself' = Some ahb" "state atr = ahb"
    and aw: "first_channels ((history_frames ?q - 1) * 1) ahb
          = last_channels ((history_frames ?q - 1) * 1) ?ah"
       "last_channels 1 ahb = data aobs" by blast
  from ao have "data aobs = [3]" by (auto simp: toy_defs unsqueeze0_def)
  with aw have r2: "first_channels 1 ahb = [8]" "last_channels 1 ahb = [3]"
    by (simp_all add: toy_defs last_channels_def channels_def chan_size_def)
  from d a hb r1 ahb r2 show ?thesis by blast
qed

subsection \<open>Declared and returned shapes\<close>

lemma toy_reset_pixels:
  "sim_reset toy_sim (env toy_pendulum)
     = Some (\<lparr>ts_pixels = toy_frame 0, ts_reward = 0, ts_last = False\<rparr>, 0)"
  by (simp add: toy_defs)

text \<open>
  C10. For a continuous-control adapter, \<^verbatim>\<open>obs_space()\<close> declares an image of exactly
  3 channels whatever \<open>history_frames\<close> is, while the state that \<^verbatim>\<open>reset()\<close> and
  \<^verbatim>\<open>step()\<close> return has \<open>3 * history_frames\<close> channels (the simulator renders
  three-channel frames); so with \<open>history_frames > 1\<close> the declared shape is not the
  shape of the returned state.
\<close>

theorem obs_space_ignores_history:
  "DeepMindControlEnv_obs_space (self\<lparr>history_frames := H\<rparr>)
     = [(''image'', [3, fst (img_size self), snd (img_size self)], UInt8)]
   \<and> (DeepMindControlEnv_reset sim self = Inr (tr, self') \<longrightarrow>
        sim_reset sim (env self) = Some (infos, s') \<longrightarrow>
        shape (ts_pixels infos) = [hh, ww, 3] \<longrightarrow>
        shape (state tr) = [3 * history_frames self, hh, ww]
        \<and> (1 < history_frames self \<longrightarrow>
             (''image'', shape (state tr), UInt8) \<notin> set (DeepMindControlEnv_obs_space self)))
   \<and> (DeepMindControlEnv_step py sim self2 action = Inr (tr2, self2', files) \<longrightarrow>
        history self2 = Some h \<longrightarrow> shape h = [3 * history_frames self2, hh2, ww2] \<longrightarrow>
        1 \<le> history_frames self2 \<longrightarrow>
        sim_trace sim (env self2) (tolist (clip (clip_low self2) (clip_high self2) action))
           (action_repeat self2) = Some tss \<longrightarrow>
        shape (ts_pixels (last tss)) = [hh2, ww2, 3] \<longrightarrow>
        shape (state tr2) = [3 * history_frames self2, hh2, ww2]
        \<and> (1 < history_frames self2 \<longrightarrow>
             (''image'', shape (state tr2), UInt8) \<notin> set (DeepMindControlEnv_obs_space self2)))"
proof (intro conjI impI)
  show "DeepMindControlEnv_obs_space (self\<lparr>history_frames := H\<rparr>)
     = [(''image'', [3, fst (img_size self), snd (img_size self)], UInt8)]"
    by (simp add: DeepMindControlEnv_obs_space_def)
next
  assume a: "DeepMindControlEnv_reset sim self = Inr (tr, self')"
    "sim_reset sim (env self) = Some (infos, s')" "shape (ts_pixels infos) = [hh, ww, 3]"
  from dmc_reset_shape[OF a] show s: "shape (state tr) = [3 * history_frames self, hh, ww]" .
  assume "1 < history_frames self"
  with s show "(''image'', shape (state tr), UInt8) \<notin> set (DeepMindControlEnv_obs_space self)"
    by (simp add: DeepMindControlEnv_obs_space_def)
next
  assume a: "DeepMindControlEnv_step py sim self2 action = Inr (tr2, self2', files)"
    "history self2 = Some h" "shape h = [3 * history_frames self2, hh2, ww2]"
    "1 \<le> history_frames self2"
    "sim_trace sim (env self2) (tolist (clip (clip_low self2) (clip_high self2) action))
           (action_repeat self2) = Some tss"
    "shape (ts_pixels (last tss)) = [hh2, ww2, 3]"
  from dmc_step_shape[OF a] show s: "shape (state tr2) = [3 * history_frames self2, hh2, ww2]" .
  assume "1 < history_frames self2"
  with s show "(''image'', shape (state tr2), UInt8) \<notin> set (DeepMindControlEnv_obs_space self2)"
    by (simp add: DeepMindControlEnv_obs_space_def)
qed

theorem obs_space_ignores_history_witness:
  "\<exists>tr self' tr2 self2' files.
      DeepMindControlEnv_reset toy_sim toy_pendulum = Inr (tr, self')
    \<and> DeepMindControlEnv_step toy_python toy_sim toy_pendulum1 toy_action = Inr (tr2, self2', files)
    \<and> DeepMindControlEnv_obs_space toy_pendulum = [(''image'', [3, 1, 1], UInt8)]
    \<and> shape (state tr) = [6, 1, 1] \<and> shape (state tr2) = [6, 1, 1]
    \<and> (''image'', shape (state tr), UInt8) \<notin> set (DeepMindControlEnv_obs_space toy_pendulum)
    \<and> (''image'', shape (state tr2), UInt8) \<notin> set (DeepMindControlEnv_obs_space toy_pendulum1)"
proof -
  let ?h = "\<lparr>shape = [6, 1, 1], data = [0, 0, 0, 0, 0, 0]\<rparr> :: frame"
  let ?tss = "[\<lparr>ts_pixels = toy_frame 1, ts_reward = 1, ts_last = False\<rparr>,
           \<lparr>ts_pixels = toy_frame 2, ts_reward = 2, ts_last = False\<rparr>,
           \<lparr>ts_pixels = toy_frame 3, ts_reward = 3, ts_last = True\<rparr>] :: int timestep list"
  from toy_reset obtain tr where
    r: "DeepMindControlEnv_reset toy_sim toy_pendulum = Inr (tr, toy_pendulum1)" by blast
  from toy_step_returns obtain tr2 self2' files where
    d: "DeepMindControlEnv_step toy_python toy_sim toy_pendulum1 toy_action
          = Inr (tr2, self2', files)" by (metis prod_cases3)
  note T = obs_space_ignores_history[where self = toy_pendulum and H = 2 and sim = toy_sim
      and tr = tr and self' = toy_pendulum1
      and infos = "\<lparr>ts_pixels = toy_frame 0, ts_reward = 0, ts_last = False\<rparr>"
      and s' = 0 and hh = 1 and ww = 1 and py = toy_python and ?self2.0 = toy_pendulum1
      and action = toy_action and ?tr2.0 = tr2 and self2' = self2' and files = files
      and h = ?h and ?hh2.0 = 1 and ?ww2.0 = 1 and tss = ?tss]
  have hf: "history_frames toy_pendulum = 2" "img_size toy_pendulum = (1, 1)"
    "toy_pendulum\<lparr>history_frames := 2\<rparr> = toy_pendulum"
    by (simp_all add: toy_defs dmc_defs)
  from T[THEN conjunct1] have o: "DeepMindControlEnv_obs_space toy_pendulum
      = [(''image'', [3, 1, 1], UInt8)]" by (simp add: hf)
  have p: "shape (ts_pixels \<lparr>ts_pixels = toy_frame 0, ts_reward = 0::int, ts_last = False\<rparr>)
      = [1, 1, 3]" by (simp add: toy_frame_def)
  note R = T[THEN conjunct2, THEN conjunct1, rule_format, OF r toy_reset_pixels p]
  have two: "1 < history_frames toy_pendulum" by (simp add: hf)
  from R[THEN conjunct1] hf have s1a: "shape (state tr) = [6, 1, 1]" by simp
  from R[THEN conjunct2, rule_format, OF two] have
    s1b: "(''image'', shape (state tr), UInt8) \<notin> set (DeepMindControlEnv_obs_space toy_pendulum)" .
  note s1 = s1a s1b
  have d1: "shape ?h = [3 * history_frames toy_pendulum1, 1, 1]" by (simp add: toy_attrs)
  have d3: "1 \<le> history_frames toy_pendulum1" by (simp add: toy_attrs)
  have d4: "sim_trace toy_sim (env toy_pendulum1)
              (tolist (clip (clip_low toy_pendulum1) (clip_high toy_pendulum1) toy_action))
              (action_repeat toy_pendulum1) = Some ?tss"
    by (simp add: toy_clipped toy_attrs toy_trace)
  have d5: "shape (ts_pixels (last ?tss)) = [1, 1, 3]" by (simp add: toy_frame_def)
  note S = T[THEN conjunct2, THEN conjunct2, rule_format, OF d toy_history d1 d3 d4 d5]
  have two': "1 < history_frames toy_pendulum1" by (simp add: toy_attrs)
  from S[THEN conjunct1] have s2a: "shape (state tr2) = [6, 1, 1]" by (simp add: toy_attrs)
  from S[THEN conjunct2, rule_format, OF two'] have
    s2b: "(''image'', shape (state tr2), UInt8) \<notin> set (DeepMindControlEnv_obs_space toy_pendulum1)" .
  note s2 = s2a s2b
  from r d o s1 s2 show ?thesis by blast
qed

subsection \<open>Flags of a step, and the action it takes\<close>

lemma toy_atari_step_values:
  "map_option done_flag (returned (AtariEnv_step toy_python toy_gym toy_atari1 toy_scalar))
     = Some True"
  "map_option is_last (returned (AtariEnv_step toy_python toy_gym toy_atari1 toy_scalar))
     = Some False"
  by (simp_all add: tensor_defs atari_defs toy_defs returned_def eval_nat_numeral Let_def)

lemma toy_atari_no_life_loss_returns:
  "\<exists>r. AtariEnv_step toy_python toy_gym (toy_atari1\<lparr>terminal_on_life_loss := False\<rparr>) toy_scalar
        = Inr r"
  by (simp add: tensor_defs atari_defs toy_defs eval_nat_numeral Let_def)

lemma dmc_step_flags:
  "DeepMindControlEnv_step py sim self action = Inr (tr, self', files) \<Longrightarrow>
     \<not> done_flag tr \<and> \<not> is_last tr \<and> \<not> is_first tr"
  by (drule dmc_step_parts) blast

text \<open>
  C8. With terminate-on-life-loss disabled, every Transition the Atari step returns has
  \<open>is_last\<close> equal to \<open>done\<close>, and so has every Transition of a continuous-control
  step. With it enabled, \<open>is_last\<close> is the emulator's game-over condition after the
  step, whatever \<open>done\<close> is; and there is a step, reachable from a reset, whose
  Transition has \<open>done\<close> true and \<open>is_last\<close> false.
\<close>

theorem is_last_and_done:
  "(\<not> terminal_on_life_loss aself \<longrightarrow>
      AtariEnv_step apy gsim aself aaction = Inr (atr, aself', afiles) \<longrightarrow>
      is_last atr = done_flag atr)
   \<and> (DeepMindControlEnv_step py sim self action = Inr (tr, self', files) \<longrightarrow>
      is_last tr = done_flag tr)
   \<and> (terminal_on_life_loss aself \<longrightarrow>
      AtariEnv_step apy gsim aself aaction = Inr (atr, aself', afiles) \<longrightarrow>
      is_last atr = game_over gsim (env aself'))
   \<and> (\<exists>(gsim0 :: (nat, int, int) gym_sim) s0 a0 t0 s1 t1 s2 fs.
        terminal_on_life_loss s0
        \<and> AtariEnv_reset toy_python gsim0 s0 = Inr (t0, s1)
        \<and> AtariEnv_step toy_python gsim0 s1 a0 = Inr (t1, s2, fs)
        \<and> done_flag t1 \<and> \<not> is_last t1)"
proof (intro conjI impI)
  assume "\<not> terminal_on_life_loss aself"
    and "AtariEnv_step apy gsim aself aaction = Inr (atr, aself', afiles)"
  then show "is_last atr = done_flag atr" using atari_step_flags by fastforce
next
  assume "DeepMindControlEnv_step py sim self action = Inr (tr, self', files)"
  then show "is_last tr = done_flag tr" using dmc_step_flags by blast
next
  assume "terminal_on_life_loss aself"
    and "AtariEnv_step apy gsim aself aaction = Inr (atr, aself', afiles)"
  then show "is_last atr = game_over gsim (env aself')" using atari_step_flags by fastforce
next
  from toy_atari_reset obtain t0 where
    r: "AtariEnv_reset toy_python toy_gym toy_atari = Inr (t0, toy_atari1)" by blast
  from toy_atari_step_returns obtain t1 s2 fs where
    s: "AtariEnv_step toy_python toy_gym toy_atari1 toy_scalar = Inr (t1, s2, fs)"
    by (metis prod_cases3)
  from toy_atari_step_values s have "done_flag t1" "\<not> is_last t1"
    by (simp_all add: returned_def)
  moreover have "terminal_on_life_loss toy_atari" by (simp add: toy_defs)
  ultimately show "\<exists>(gsim0 :: (nat, int, int) gym_sim) s0 a0 t0 s1 t1 s2 fs.
        terminal_on_life_loss s0
        \<and> AtariEnv_reset toy_python gsim0 s0 = Inr (t0, s1)
        \<and> AtariEnv_step toy_python gsim0 s1 a0 = Inr (t1, s2, fs)
        \<and> done_flag t1 \<and> \<not> is_last t1"
    using r s by blast
qed

theorem is_last_and_done_witness:
  "\<exists>atr aself' afiles tr self' files btr bself' bfiles.
      AtariEnv_step toy_python toy_gym (toy_atari1\<lparr>terminal_on_life_loss := False\<rparr>) toy_scalar
        = Inr (atr, aself', afiles)
    \<and> is_last atr = done_flag atr
    \<and> DeepMindControlEnv_step toy_python toy_sim toy_pendulum1 toy_action = Inr (tr, self', files)
    \<and> is_last tr = done_flag tr
    \<and> AtariEnv_step toy_python toy_gym toy_atari1 toy_scalar = Inr (btr, bself', bfiles)
    \<and> is_last btr = game_over toy_gym (env bself') \<and> done_flag btr \<and> \<not> is_last btr"
proof -
  from toy_atari_no_life_loss_returns obtain atr aself' afiles where
    a: "AtariEnv_step toy_python toy_gym (toy_atari1\<lparr>terminal_on_life_loss := False\<rparr>) toy_scalar
          = Inr (atr, aself', afiles)" by (metis prod_cases3)
  from toy_step_returns obtain tr self' files where
    d: "DeepMindControlEnv_step toy_python toy_sim toy_pendulum1 toy_action
          = Inr (tr, self', files)" by (metis prod_cases3)
  from toy_atari_step_returns obtain btr bself' bfiles where
    b: "AtariEnv_step toy_python toy_gym toy_atari1 toy_scalar = Inr (btr, bself', bfiles)"
    by (metis prod_cases3)
  have n: "\<not> terminal_on_life_loss (toy_atari1\<lparr>terminal_on_life_loss := False\<rparr>)" by simp
  have y: "terminal_on_life_loss toy_atari1" by (simp add: toy_defs)
  note T1 = is_last_and_done[where aself = "toy_atari1\<lparr>terminal_on_life_loss := False\<rparr>"
      and apy = toy_python and gsim = toy_gym and aaction = toy_scalar and atr = atr
      and aself' = aself' and afiles = afiles and py = toy_python and sim = toy_sim
      and self = toy_pendulum1 and action = toy_action and tr = tr and self' = self'
      and files = files]
  note T2 = is_last_and_done[where aself = toy_atari1
      and apy = toy_python and gsim = toy_gym and aaction = toy_scalar and atr = btr
      and aself' = bself' and afiles = bfiles and py = toy_python and sim = toy_sim
      and self = toy_pendulum1 and action = toy_action and tr = tr and self' = self'
      and files = files]
  from T1[THEN conjunct1, rule_format, OF n a] have r1: "is_last atr = done_flag atr" .
  from T1[THEN conjunct2, THEN conjunct1, rule_format, OF d] have r2: "is_last tr = done_flag tr" .
  from T2[THEN conjunct2, THEN conjunct2, THEN conjunct1, rule_format, OF y b] have
    r3: "is_last btr = game_over toy_gym (env bself')" .
  from toy_atari_step_values b have r4: "done_flag btr" "\<not> is_last btr"
    by (simp_all add: returned_def)
  from a d b r1 r2 r3 r4 show ?thesis by blast
qed

lemma length_one_hot: "one_hot k n = Inr a \<Longrightarrow> numel a = n \<and> shape a = [n]"
  by (auto simp: one_hot_def numel_def split: if_splits)

lemma atari_step_item:
  "numel action \<noteq> 1 \<Longrightarrow> AtariEnv_step py sim self action = Inl ItemError"
proof -
  assume "numel action \<noteq> 1"
  then have "item action = Inl ItemError" by (simp add: item_error)
  then show ?thesis by (simp add: AtariEnv_step_def)
qed

text \<open>
  C9. For an Atari adapter with \<open>num_actions > 1\<close>, the one-hot vector \<^verbatim>\<open>sample()\<close>
  returns has \<open>num_actions\<close> elements and \<^verbatim>\<open>step\<close> fails on it, at \<^verbatim>\<open>action.item()\<close>;
  \<^verbatim>\<open>step\<close> fails so on every tensor that does not hold exactly one element, and
  returns only on single-element tensors.
\<close>

theorem sample_not_accepted:
  "(1 < num_actions self \<longrightarrow> k < num_actions self \<longrightarrow>
      (\<exists>a. AtariEnv_sample self k = Inr a \<and> numel a = num_actions self
          \<and> AtariEnv_step py sim self a = Inl ItemError))
   \<and> (numel action \<noteq> 1 \<longrightarrow> AtariEnv_step py sim self action = Inl ItemError)
   \<and> (AtariEnv_step py sim self action = Inr r \<longrightarrow> numel action = 1)"
proof (intro conjI impI)
  assume n: "1 < num_actions self" and k: "k < num_actions self"
  from k obtain a :: "'b tensor" where a: "AtariEnv_sample self k = Inr a"
    by (simp add: AtariEnv_sample_def one_hot_def)
  then have l: "numel a = num_actions self"
    by (simp add: AtariEnv_sample_def length_one_hot)
  with n have "numel a \<noteq> 1" by simp
  from atari_step_item[OF this] a l show
    "\<exists>a. AtariEnv_sample self k = Inr a \<and> numel a = num_actions self
          \<and> AtariEnv_step py sim self a = Inl ItemError" by blast
next
  assume "numel action \<noteq> 1"
  then show "AtariEnv_step py sim self action = Inl ItemError" by (rule atari_step_item)
next
  assume "AtariEnv_step py sim self action = Inr r"
  then show "numel action = 1" using atari_step_item[of action py sim self] by auto
qed

theorem sample_not_accepted_witness:
  "AtariEnv_sample toy_atari1 2 = Inr \<lparr>shape = [4], data = [0, 0, 1, 0 :: int]\<rparr>
   \<and> AtariEnv_step toy_python toy_gym toy_atari1 \<lparr>shape = [4], data = [0, 0, 1, 0]\<rparr>
       = Inl ItemError
   \<and> numel toy_scalar = 1
   \<and> (\<exists>r. AtariEnv_step toy_python toy_gym toy_atari1 toy_scalar = Inr r)"
proof -
  have n: "1 < num_actions toy_atari1" "(2::nat) < num_actions toy_atari1"
    by (simp_all add: toy_defs)
  have s: "AtariEnv_sample toy_atari1 2 = Inr \<lparr>shape = [4], data = [0, 0, 1, 0 :: int]\<rparr>"
    by (simp add: AtariEnv_sample_def one_hot_def toy_defs eval_nat_numeral)
  from toy_atari_step_returns obtain r where
    b: "AtariEnv_step toy_python toy_gym toy_atari1 toy_scalar = Inr r" by blast
  note T = sample_not_accepted[where self = toy_atari1 and k = 2 and py = toy_python
      and sim = toy_gym and action = toy_scalar and r = r]
  from T[THEN conjunct1, rule_format, OF n] s have
    f: "AtariEnv_step toy_python toy_gym toy_atari1 \<lparr>shape = [4], data = [0, 0, 1, 0]\<rparr>
          = Inl ItemError" by auto
  from T[THEN conjunct2, THEN conjunct2, rule_format, OF b] have "numel toy_scalar = 1" .
  with s f b show ?thesis by blast
qed

subsection \<open>The done flag of the continuous-control step\<close>

lemma toy_step_values:
  "map_option done_flag
     (returned (DeepMindControlEnv_step toy_python toy_sim toy_pendulum1 toy_action)) = Some False"
  "map_option episode_video
     (left_state (DeepMindControlEnv_step toy_python toy_sim toy_pendulum1 toy_action))
     = Some (Some (Stacked \<lparr>shape = [3, 1, 1, 3], data = [1, 1, 1, 2, 2, 2, 3, 3, 3]\<rparr>))"
  "map_option episode_video_pre
     (left_state (DeepMindControlEnv_step toy_python toy_sim toy_pendulum1 toy_action))
     = Some (Some (Stacked \<lparr>shape = [3, 1, 1, 3], data = [1, 1, 1, 2, 2, 2, 3, 3, 3]\<rparr>))"
  "map_option (map filename)
     (written (DeepMindControlEnv_step toy_python toy_sim toy_pendulum1 toy_action))
     = Some [''ep/2026-01-01_12:00:00_score.mp4'', ''ep/2026-01-01_12:00:00_score_pre.mp4'']"
  by (simp_all add: tensor_defs dmc_defs toy_defs returned_def left_state_def written_def
        eval_nat_numeral Let_def)

theorem step_done_counterexample:
  "map_option done_flag
     (returned (DeepMindControlEnv_step toy_python toy_sim toy_pendulum1 toy_action)) = Some False
   \<and> map_option (map ts_last)
       (sim_trace toy_sim (env toy_pendulum1)
          (tolist (clip (clip_low toy_pendulum1) (clip_high toy_pendulum1) toy_action))
          (action_repeat toy_pendulum1))
     = Some [False, False, True]"
  by (simp add: toy_step_values toy_clipped toy_attrs toy_trace)

text \<open>
  C1, amended. For a continuous-control adapter with \<open>action_repeat = R\<close>, the \<open>done\<close>
  field of the Transition that \<open>step\<close> returns is false, whatever the \<open>R\<close> sub-steps of
  the simulator reported. Their termination flags are OR-ed into the loop's own flag,
  which only decides the flush of the recording: the step writes video files if and
  only if recording is enabled and at least one sub-step reported termination.
\<close>

theorem step_done_is_false:
  assumes "DeepMindControlEnv_step py sim self action = Inr (tr, self', files)"
  shows "\<not> done_flag tr
         \<and> (\<exists>tss. sim_trace sim (env self)
                    (tolist (clip (clip_low self) (clip_high self) action)) (action_repeat self)
                  = Some tss
               \<and> length tss = action_repeat self
               \<and> (files \<noteq> [])
                   = ((\<exists>ts \<in> set tss. ts_last ts) \<and> episode_saving_path self \<noteq> None))"
proof -
  from dmc_step_flags[OF assms] have "\<not> done_flag tr" by simp
  moreover from dmc_step_trace[OF assms] have
    "\<exists>tss. sim_trace sim (env self)
                    (tolist (clip (clip_low self) (clip_high self) action)) (action_repeat self)
                  = Some tss
               \<and> length tss = action_repeat self
               \<and> (files \<noteq> [])
                   = ((\<exists>ts \<in> set tss. ts_last ts) \<and> episode_saving_path self \<noteq> None)"
    by blast
  ultimately show ?thesis by simp
qed

theorem step_done_is_false_witness:
  "\<exists>tr self' files.
     DeepMindControlEnv_step toy_python toy_sim toy_pendulum1 toy_action = Inr (tr, self', files)
     \<and> \<not> done_flag tr \<and> files \<noteq> []"
proof -
  from toy_step_returns obtain tr self' files where
    s: "DeepMindControlEnv_step toy_python toy_sim toy_pendulum1 toy_action
          = Inr (tr, self', files)"
    by (metis prod_cases3)
  from step_done_is_false[OF s] have "\<not> done_flag tr" "files \<noteq> []"
    by (simp_all add: toy_clipped toy_attrs toy_trace)
  with s show ?thesis by blast
qed

subsection \<open>The flush of a recorded episode\<close>









subsection \<open>What a step checks of its action\<close>















subsection \<open>The collate utility on a structure of one entry\<close>

text \<open>A list or a tuple of one parameter gives the bare stacked array, when the
  selection and the stacking succeed.\<close>

lemma collate_single_list:
  "collate_one samples ps = Inr c \<Longrightarrow>
     CollateFn_collate samples (PList [ps]) = Inr (CItem c)
     \<and> CollateFn_collate samples (PTuple [ps]) = Inr (CItem c)"
  by (simp add: CollateFn_collate_def single_elt_def py_index_def)

text \<open>A dictionary of one parameter gives the bare stacked array only under the key
  \<open>0\<close>; under any other key the lookup \<^verbatim>\<open>collates[0]\<close> raises.\<close>

lemma collate_single_dict:
  "collate_one samples ps = Inr c \<Longrightarrow>
     CollateFn_collate samples (PDict [(k, ps)])
       = (if k = KInt 0 then Inr (CItem c) else Inl KeyError)"
  by (simp add: CollateFn_collate_def single_elt_def dict_get_def)

text \<open>
  C4. At a mapping of one entry whose key is a name, and two samples: the collate
  raises \<open>KeyError\<close>, where the list of the same one parameter gives the bare stacked
  array.
\<close>

theorem collate_single_dict_raises:
  "CollateFn_collate toy_samples (PDict [(KStr ''inputs'', [(''axis'', 0)])]) = Inl KeyError
   \<and> CollateFn_collate toy_samples (PList [[(''axis'', 0)]])
       = Inr (CItem \<lparr>shape = [2, 1], data = [1, 2]\<rparr>)"
proof -
  have c: "collate_one toy_samples [(''axis'', 0)] = Inr \<lparr>shape = [2, 1], data = [1, 2]\<rparr>"
    by (simp add: collate_one_def py_index_def stack_def toy_samples_def)
  from collate_single_dict[OF c, of "KStr ''inputs''"] collate_single_list[OF c]
  show ?thesis by simp
qed

end
